theory Spec2Isabelle
  imports Main
begin

section \<open>JavaScript strings\<close>

text \<open>
  A JavaScript string is a sequence of UTF-16 code units. The model reads every
  \<^typ>\<open>char\<close> as one code unit in the range 0..255 (the Latin-1 code points), so
  \<^const>\<open>length\<close> is the source's \<^verbatim>\<open>.length\<close>. Text with code units above 255 is
  outside the model.
\<close>

definition whiteSpace :: "char list" where
  "whiteSpace = [CHR 0x09, CHR 0x0A, CHR 0x0B, CHR 0x0C, CHR 0x0D, CHR 0x20, CHR 0xA0]"

definition isWhiteSpace :: "char \<Rightarrow> bool" where
  "isWhiteSpace c = (c \<in> set whiteSpace)"

text \<open>\<^verbatim>\<open>String.prototype.trim\<close>: white space and line terminators go from both ends.\<close>

definition trim :: "string \<Rightarrow> string" where
  "trim s = rev (dropWhile isWhiteSpace (rev (dropWhile isWhiteSpace s)))"

definition upperCaseLetters :: "char list" where
  "upperCaseLetters = ''ABCDEFGHIJKLMNOPQRSTUVWXYZ'' @
     [CHR 0xC0, CHR 0xC1, CHR 0xC2, CHR 0xC3, CHR 0xC4, CHR 0xC5, CHR 0xC6, CHR 0xC7,
      CHR 0xC8, CHR 0xC9, CHR 0xCA, CHR 0xCB, CHR 0xCC, CHR 0xCD, CHR 0xCE, CHR 0xCF,
      CHR 0xD0, CHR 0xD1, CHR 0xD2, CHR 0xD3, CHR 0xD4, CHR 0xD5, CHR 0xD6,
      CHR 0xD8, CHR 0xD9, CHR 0xDA, CHR 0xDB, CHR 0xDC, CHR 0xDD, CHR 0xDE]"

text \<open>In Latin-1 a capital letter and its small letter differ in bit 5 (0x20) only.\<close>

fun setBit5 :: "char \<Rightarrow> char" where
  "setBit5 (Char b0 b1 b2 b3 b4 b5 b6 b7) = Char b0 b1 b2 b3 b4 True b6 b7"

definition toLowerCase_char :: "char \<Rightarrow> char" where
  "toLowerCase_char c = (if c \<in> set upperCaseLetters then setBit5 c else c)"

text \<open>\<^verbatim>\<open>String.prototype.toLowerCase\<close>.\<close>

definition toLowerCase :: "string \<Rightarrow> string" where
  "toLowerCase s = map toLowerCase_char s"

text \<open>\<^verbatim>\<open>s.startsWith(p)\<close> and \<^verbatim>\<open>s.includes(p)\<close>: \<open>p\<close> occurs in \<open>s\<close> as a contiguous run.\<close>

fun startsWith :: "string \<Rightarrow> string \<Rightarrow> bool" where
  "startsWith s [] = True"
| "startsWith [] (p # ps) = False"
| "startsWith (c # cs) (p # ps) = (c = p \<and> startsWith cs ps)"

fun includes_str :: "string \<Rightarrow> string \<Rightarrow> bool" where
  "includes_str [] p = (p = [])"
| "includes_str (c # cs) p = (startsWith (c # cs) p \<or> includes_str cs p)"

text \<open>
  JavaScript truthiness of a value that is a string, \<^verbatim>\<open>null\<close> or \<^verbatim>\<open>undefined\<close>
  (\<^const>\<open>None\<close>): only a non-empty string is truthy.
\<close>

fun truthy :: "string option \<Rightarrow> bool" where
  "truthy None = False"
| "truthy (Some s) = (s \<noteq> [])"

section \<open>Rate limiter (\<^verbatim>\<open>src/lib/rate-limiter.ts\<close>)\<close>

text \<open>
  Numbers are JavaScript doubles in the source; \<^verbatim>\<open>Date.now()\<close>, the window and the
  counters are integers far below \<open>2^53\<close>, where double arithmetic is exact, so they are
  \<^typ>\<open>int\<close> here.
\<close>

record RateLimitEntry =
  count :: int
  resetTime :: int

text \<open>\<^verbatim>\<open>rateLimitStore\<close>, the process-wide \<^verbatim>\<open>Map<string, RateLimitEntry>\<close>.\<close>

type_synonym RateLimitStore = "string \<rightharpoonup> RateLimitEntry"

text \<open>
  What \<^verbatim>\<open>headers()\<close> resolves to for the request: \<^verbatim>\<open>headersList.get(name)\<close> is a
  string or \<^verbatim>\<open>null\<close>.
\<close>

type_synonym headers = "string \<Rightarrow> string option"

definition getClientIP :: "headers \<Rightarrow> string" where
  "getClientIP headersList =
     (let forwardedFor = headersList ''x-forwarded-for'';
          realIP = headersList ''x-real-ip'';
          cfConnectingIP = headersList ''cf-connecting-ip''
      in if truthy forwardedFor
         then trim (takeWhile (\<lambda>c. c \<noteq> CHR '','') (the forwardedFor))
         else if truthy realIP then the realIP
         else if truthy cfConnectingIP then the cfConnectingIP
         else ''127.0.0.1'')"

text \<open>The value \<^verbatim>\<open>checkRateLimit\<close> resolves to; \<open>resetAt\<close> is its \<^verbatim>\<open>resetTime\<close> field.\<close>

record RateLimitResult =
  allowed :: bool
  remaining :: int
  resetAt :: int

text \<open>
  \<^verbatim>\<open>checkRateLimit(action, windowMs, maxRequests)\<close>. The request's headers and the value
  of \<^verbatim>\<open>Date.now()\<close> are arguments; the store is passed in and returned.
\<close>

definition checkRateLimit ::
  "headers \<Rightarrow> int \<Rightarrow> string \<Rightarrow> int \<Rightarrow> int \<Rightarrow> RateLimitStore
     \<Rightarrow> RateLimitResult \<times> RateLimitStore" where
  "checkRateLimit headersList now action windowMs maxRequests store =
     (let clientIP = getClientIP headersList;
          key = clientIP @ '':'' @ action
      in case store key of
           None \<Rightarrow>
             (let newEntry = \<lparr>count = 1, resetTime = now + windowMs\<rparr>
              in (\<lparr>allowed = True, remaining = maxRequests - 1, resetAt = resetTime newEntry\<rparr>,
                  store(key \<mapsto> newEntry)))
         | Some entry \<Rightarrow>
             if now > resetTime entry
             then (let newEntry = \<lparr>count = 1, resetTime = now + windowMs\<rparr>
                   in (\<lparr>allowed = True, remaining = maxRequests - 1,
                        resetAt = resetTime newEntry\<rparr>,
                       store(key \<mapsto> newEntry)))
             else if count entry \<ge> maxRequests
             then (\<lparr>allowed = False, remaining = 0, resetAt = resetTime entry\<rparr>, store)
             else (let entry' = entry\<lparr>count := count entry + 1\<rparr>
                   in (\<lparr>allowed = True, remaining = maxRequests - count entry',
                        resetAt = resetTime entry'\<rparr>,
                       store(key \<mapsto> entry'))))"

text \<open>
  The sweep the module runs every five minutes (\<^verbatim>\<open>setInterval\<close>): it deletes the
  entries whose window is over at the time it runs.
\<close>

definition sweep :: "int \<Rightarrow> RateLimitStore \<Rightarrow> RateLimitStore" where
  "sweep now store =
     (\<lambda>key. case store key of
              None \<Rightarrow> None
            | Some entry \<Rightarrow> if now > resetTime entry then None else Some entry)"

text \<open>The key of a client and an action in the store (the local \<^verbatim>\<open>key\<close>).\<close>

definition rateLimitKey :: "headers \<Rightarrow> string \<Rightarrow> string" where
  "rateLimitKey headersList action = getClientIP headersList @ '':'' @ action"

text \<open>
  A run of calls for one client and action with the defaults (window 60000 ms, at most
  20 requests), one call at each of the given times: the \<^verbatim>\<open>allowed\<close> flags in order,
  and the store afterwards.
\<close>

fun checkAll ::
  "headers \<Rightarrow> string \<Rightarrow> int list \<Rightarrow> RateLimitStore \<Rightarrow> bool list \<times> RateLimitStore" where
  "checkAll headersList action [] store = ([], store)"
| "checkAll headersList action (now # nows) store =
     (let (r, store') = checkRateLimit headersList now action 60000 20 store;
          (rs, store'') = checkAll headersList action nows store'
      in (allowed r # rs, store''))"

section \<open>Friendly error messages (\<^verbatim>\<open>getFriendlyErrorMessage\<close>, \<^verbatim>\<open>sanitizeText\<close>)\<close>

text \<open>
  A backend error as the actions read it: \<^verbatim>\<open>error?.code\<close> and \<^verbatim>\<open>error?.message\<close>,
  each a string or \<^verbatim>\<open>undefined\<close>.
\<close>

record BackendError =
  code :: "string option"
  message :: "string option"

text \<open>
  What the source's property access \<^verbatim>\<open>TABLE[key]\<close> can yield. The tables are plain
  object literals, so a key that is not a property of the table itself is looked up in
  \<^verbatim>\<open>Object.prototype\<close>: \<open>Inherited name\<close> is the member found there (a function, or
  the prototype object for \<^verbatim>\<open>__proto__\<close>), which is not a string.
\<close>

datatype js_value = Str string | Inherited string

definition objectPrototypeMembers :: "string list" where
  "objectPrototypeMembers =
     [''constructor'', ''hasOwnProperty'', ''isPrototypeOf'', ''propertyIsEnumerable'',
      ''toLocaleString'', ''toString'', ''valueOf'', ''__proto__'',
      ''__defineGetter__'', ''__defineSetter__'', ''__lookupGetter__'', ''__lookupSetter__'']"

text \<open>
  \<^verbatim>\<open>obj[key]\<close> for an object literal given as its key-value pairs in source order; of a
  key written twice the last value counts.
\<close>

definition property :: "(string \<times> string) list \<Rightarrow> string \<Rightarrow> js_value option" where
  "property obj key =
     (case map_of (rev obj) key of
        Some v \<Rightarrow> Some (Str v)
      | None \<Rightarrow> if key \<in> set objectPrototypeMembers then Some (Inherited key) else None)"

fun truthy_value :: "js_value option \<Rightarrow> bool" where
  "truthy_value None = False"
| "truthy_value (Some (Str s)) = (s \<noteq> [])"
| "truthy_value (Some (Inherited name)) = True"

definition DB_ERROR_MESSAGES :: "(string \<times> string) list" where
  "DB_ERROR_MESSAGES =
     [(''23505'', ''This action has already been completed.''),
      (''23503'', ''Referenced item not found.''),
      (''23502'', ''Required field is missing.''),
      (''42501'', ''You do not have permission to perform this action.''),
      (''42P01'', ''Requested resource not found.''),
      (''PGRST116'', ''Requested resource not found.''),
      (''PGRST301'', ''You do not have permission to perform this action.''),
      (''PGRST302'', ''Authentication required.''),
      (''PGRST303'', ''You do not have permission to perform this action.'')]"

definition SUPABASE_ERROR_MESSAGES :: "(string \<times> string) list" where
  "SUPABASE_ERROR_MESSAGES =
     [(''invalid_credentials'', ''Invalid email or password.''),
      (''email_not_confirmed'', ''Please check your email and confirm your account.''),
      (''weak_password'', ''Password is too weak. Please choose a stronger password.''),
      (''user_not_found'', ''User not found.''),
      (''email_address_invalid'', ''Please enter a valid email address.''),
      (''signup_disabled'', ''New account registration is currently disabled.''),
      (''email_address_not_authorized'', ''This email address is not authorized.''),
      (''invalid_request'', ''Invalid request. Please try again.''),
      (''invalid_grant'', ''Invalid credentials.''),
      (''invalid_token'', ''Session expired. Please log in again.''),
      (''token_expired'', ''Session expired. Please log in again.''),
      (''refresh_token_not_found'', ''Session expired. Please log in again.''),
      (''invalid_refresh_token'', ''Session expired. Please log in again.''),
      (''invalid_otp'', ''Invalid verification code.''),
      (''otp_expired'', ''Verification code has expired.''),
      (''email_rate_limit_exceeded'', ''Too many requests. Please try again later.''),
      (''sms_rate_limit_exceeded'', ''Too many requests. Please try again later.''),
      (''phone_number_invalid'', ''Please enter a valid phone number.''),
      (''invalid_phone_number'', ''Please enter a valid phone number.''),
      (''phone_number_not_found'', ''Phone number not found.''),
      (''invalid_email'', ''Please enter a valid email address.''),
      (''invalid_password'', ''Password does not meet requirements.''),
      (''invalid_user_data'', ''Invalid user information provided.''),
      (''invalid_claims'', ''Invalid user claims.''),
      (''invalid_audience'', ''Invalid audience.''),
      (''invalid_issuer'', ''Invalid issuer.''),
      (''invalid_jwt'', ''Invalid authentication token.''),
      (''invalid_webhook'', ''Invalid webhook request.''),
      (''invalid_webhook_signature'', ''Invalid webhook signature.''),
      (''invalid_webhook_payload'', ''Invalid webhook payload.''),
      (''invalid_webhook_event'', ''Invalid webhook event.''),
      (''invalid_webhook_topic'', ''Invalid webhook topic.''),
      (''invalid_webhook_version'', ''Invalid webhook version.''),
      (''invalid_webhook_environment'', ''Invalid webhook environment.''),
      (''invalid_webhook_application'', ''Invalid webhook application.''),
      (''invalid_webhook_organization'', ''Invalid webhook organization.''),
      (''invalid_webhook_user'', ''Invalid webhook user.''),
      (''invalid_webhook_team'', ''Invalid webhook team.''),
      (''invalid_webhook_project'', ''Invalid webhook project.''),
      (''invalid_webhook_workspace'', ''Invalid webhook workspace.''),
      (''invalid_webhook_environment'', ''Invalid webhook environment.''),
      (''invalid_webhook_application'', ''Invalid webhook application.''),
      (''invalid_webhook_organization'', ''Invalid webhook organization.''),
      (''invalid_webhook_user'', ''Invalid webhook user.''),
      (''invalid_webhook_team'', ''Invalid webhook team.''),
      (''invalid_webhook_project'', ''Invalid webhook project.''),
      (''invalid_webhook_workspace'', ''Invalid webhook workspace.'')]"

text \<open>\<^verbatim>\<open>error?.message?.includes(pattern)\<close>: false when there is no message.\<close>

definition messageIncludes :: "BackendError \<Rightarrow> string \<Rightarrow> bool" where
  "messageIncludes error pattern =
     (case message error of None \<Rightarrow> False | Some m \<Rightarrow> includes_str m pattern)"

text \<open>
  \<^verbatim>\<open>getFriendlyErrorMessage(error)\<close>. The call of \<^verbatim>\<open>logger.error\<close> writes to the
  console only and is left out.
\<close>

definition getFriendlyErrorMessage :: "BackendError \<Rightarrow> js_value" where
  "getFriendlyErrorMessage error =
     (if truthy (code error) \<and> truthy_value (property DB_ERROR_MESSAGES (the (code error)))
      then the (property DB_ERROR_MESSAGES (the (code error)))
      else if truthy (message error) \<and>
              truthy_value (property SUPABASE_ERROR_MESSAGES (the (message error)))
      then the (property SUPABASE_ERROR_MESSAGES (the (message error)))
      else if messageIncludes error ''duplicate key'' then Str ''This item already exists.''
      else if messageIncludes error ''foreign key'' then Str ''Referenced item not found.''
      else if messageIncludes error ''permission denied''
      then Str ''You do not have permission to perform this action.''
      else if messageIncludes error ''not found'' then Str ''Requested resource not found.''
      else if messageIncludes error ''unauthorized'' then Str ''Authentication required.''
      else if messageIncludes error ''forbidden''
      then Str ''You do not have permission to perform this action.''
      else if messageIncludes error ''rate limit''
      then Str ''Too many requests. Please try again later.''
      else if messageIncludes error ''timeout'' then Str ''Request timed out. Please try again.''
      else if messageIncludes error ''network''
      then Str ''Network error. Please check your connection and try again.''
      else Str ''An unexpected error occurred. Please try again.'')"

text \<open>
  The messages the function is written to return: the values of the two tables, the
  messages of the patterns and the fallback.
\<close>

definition friendlyMessages :: "string set" where
  "friendlyMessages =
     snd ` set DB_ERROR_MESSAGES \<union> snd ` set SUPABASE_ERROR_MESSAGES \<union>
     {''This item already exists.'', ''Referenced item not found.'',
      ''You do not have permission to perform this action.'',
      ''Requested resource not found.'', ''Authentication required.'',
      ''Too many requests. Please try again later.'',
      ''Request timed out. Please try again.'',
      ''Network error. Please check your connection and try again.'',
      ''An unexpected error occurred. Please try again.''}"

text \<open>
  A value of a form field, \<^verbatim>\<open>FormDataEntryValue\<close>: a string or a file.
\<close>

datatype FormDataEntryValue = Text string | File

text \<open>\<^verbatim>\<open>.replace(/[<>]/g, '')\<close>.\<close>

definition removeAngleBrackets :: "string \<Rightarrow> string" where
  "removeAngleBrackets s = filter (\<lambda>c. c \<noteq> CHR ''<'' \<and> c \<noteq> CHR ''>'') s"

text \<open>
  A literal pattern of small ASCII letters and punctuation matched at the start of the
  text under the flag \<^verbatim>\<open>i\<close>: without the flag \<^verbatim>\<open>u\<close> a character above 127 never
  matches an ASCII letter, so a letter matches itself and its capital only.
\<close>

fun matchesIgnoreCase :: "string \<Rightarrow> string \<Rightarrow> bool" where
  "matchesIgnoreCase s [] = True"
| "matchesIgnoreCase [] (p # ps) = False"
| "matchesIgnoreCase (c # cs) (p # ps) = (toLowerCase_char c = p \<and> matchesIgnoreCase cs ps)"

text \<open>
  \<^verbatim>\<open>.replace(/javascript:/gi, '')\<close>: a scan from the left; after a match the scan goes
  on behind it, so text joined by a removal is not looked at again.
\<close>

fun removeJavascriptScheme :: "string \<Rightarrow> string" where
  "removeJavascriptScheme [] = []"
| "removeJavascriptScheme (c # cs) =
     (if matchesIgnoreCase (c # cs) ''javascript:''
      then removeJavascriptScheme (drop 10 cs)
      else c # removeJavascriptScheme cs)"

definition isWordChar :: "char \<Rightarrow> bool" where
  "isWordChar c =
     (c \<in> set ''abcdefghijklmnopqrstuvwxyzABCDEFGHIJKLMNOPQRSTUVWXYZ0123456789_'')"

text \<open>
  \<^verbatim>\<open>/on\w+=/i\<close> at the start of the text \<open>c # cs\<close>: the text behind the match, if it
  matches. \<^verbatim>\<open>\w+\<close> takes the longest run of word characters; a shorter run is followed
  by a word character, never by \<^verbatim>\<open>=\<close>, so backtracking finds nothing more.
\<close>

definition eventHandlerRest :: "char \<Rightarrow> string \<Rightarrow> string option" where
  "eventHandlerRest c cs =
     (case cs of
        [] \<Rightarrow> None
      | n # rest \<Rightarrow>
          if toLowerCase_char c = CHR ''o'' \<and> toLowerCase_char n = CHR ''n''
          then (case dropWhile isWordChar rest of
                  [] \<Rightarrow> None
                | e # after \<Rightarrow>
                    if takeWhile isWordChar rest \<noteq> [] \<and> e = CHR ''='' then Some after
                    else None)
          else None)"

lemma eventHandlerRest_shorter:
  "eventHandlerRest c cs = Some after \<Longrightarrow> length after < Suc (length cs)"
proof -
  assume a: "eventHandlerRest c cs = Some after"
  then obtain n rest e where cs: "cs = n # rest" and d: "dropWhile isWordChar rest = e # after"
    by (auto simp: eventHandlerRest_def split: list.splits if_splits)
  have "length (dropWhile isWordChar rest) \<le> length rest"
    by (rule length_dropWhile_le)
  with cs d show ?thesis by simp
qed

text \<open>\<^verbatim>\<open>.replace(/on\w+=/gi, '')\<close>.\<close>

function removeEventHandlers :: "string \<Rightarrow> string" where
  "removeEventHandlers [] = []"
| "removeEventHandlers (c # cs) =
     (case eventHandlerRest c cs of
        Some after \<Rightarrow> removeEventHandlers after
      | None \<Rightarrow> c # removeEventHandlers cs)"
  by pat_completeness auto
termination
  by (relation "measure length") (auto dest: eventHandlerRest_shorter)

text \<open>
  \<^verbatim>\<open>sanitizeText(text)\<close>; the argument is what \<^verbatim>\<open>formData.get\<close> gave, \<^const>\<open>None\<close>
  for \<^verbatim>\<open>null\<close>.
\<close>

definition sanitizeText :: "FormDataEntryValue option \<Rightarrow> string" where
  "sanitizeText text =
     (case text of
        Some (Text s) \<Rightarrow> trim (removeEventHandlers (removeJavascriptScheme (removeAngleBrackets s)))
      | _ \<Rightarrow> [])"

section \<open>Vote signatures (\<^verbatim>\<open>src/lib/vote-signature.ts\<close>)\<close>

text \<open>
  Node's keyed digest \<^verbatim>\<open>createHmac('sha256', key).update(data).digest('hex')\<close> is
  library code outside the repository; the functions take it as the parameter
  \<open>createHmac\<close>, a function of the key and the data.
\<close>

type_synonym hmac = "string \<Rightarrow> string \<Rightarrow> string"

datatype Error = Error string

text \<open>
  Loading the module: \<open>env\<close> is \<^verbatim>\<open>process.env.VOTE_SIGNING_SECRET\<close>. The module throws
  (\<^const>\<open>Inl\<close>) or binds \<^verbatim>\<open>VOTE_SIGNING_SECRET\<close> (\<^const>\<open>Inr\<close>).
\<close>

definition loadVoteSignature :: "string option \<Rightarrow> Error + string" where
  "loadVoteSignature env =
     (let VOTE_SIGNING_SECRET = env
      in if \<not> truthy VOTE_SIGNING_SECRET
         then Inl (Error ''VOTE_SIGNING_SECRET environment variable is required'')
         else Inr (the VOTE_SIGNING_SECRET))"

text \<open>The local \<^verbatim>\<open>data\<close> of \<^verbatim>\<open>generateVoteSignature\<close>, the text that is signed.\<close>

definition signedData :: "string \<Rightarrow> string \<Rightarrow> string option \<Rightarrow> string" where
  "signedData pollId userAgent ip =
     pollId @ '':'' @ userAgent @ (if truthy ip then '':'' @ the ip else [])"

definition generateVoteSignature ::
  "hmac \<Rightarrow> string \<Rightarrow> string \<Rightarrow> string \<Rightarrow> string option \<Rightarrow> string" where
  "generateVoteSignature createHmac VOTE_SIGNING_SECRET pollId userAgent ip =
     createHmac VOTE_SIGNING_SECRET (signedData pollId userAgent ip)"

definition verifyVoteSignature ::
  "hmac \<Rightarrow> string \<Rightarrow> string \<Rightarrow> string \<Rightarrow> string \<Rightarrow> string option \<Rightarrow> bool" where
  "verifyVoteSignature createHmac VOTE_SIGNING_SECRET pollId userAgent signature ip =
     (let expectedSignature = generateVoteSignature createHmac VOTE_SIGNING_SECRET pollId userAgent ip
      in expectedSignature = signature)"


section \<open>Validation schemas (\<^verbatim>\<open>src/app/lib/actions/poll-actions.ts\<close>)\<close>

text \<open>
  The schemas are built with the library Zod. A string schema runs its checks in the
  order they are written, on the text as it is at that point: a failed \<^verbatim>\<open>min\<close> or
  \<^verbatim>\<open>max\<close> adds its message to the issues and the run goes on; \<^verbatim>\<open>trim\<close> replaces the
  text. The result is the issues in order and the text.
\<close>

datatype stringCheck = Min nat string | Max nat string | Trim

fun zodString :: "stringCheck list \<Rightarrow> string \<Rightarrow> string list \<times> string" where
  "zodString [] s = ([], s)"
| "zodString (Min n msg # checks) s =
     (let (issues, s') = zodString checks s
      in ((if length s < n then [msg] else []) @ issues, s'))"
| "zodString (Max n msg # checks) s =
     (let (issues, s') = zodString checks s
      in ((if length s > n then [msg] else []) @ issues, s'))"
| "zodString (Trim # checks) s = zodString checks (trim s)"

definition pollQuestionSchema :: "string \<Rightarrow> string list \<times> string" where
  "pollQuestionSchema =
     zodString [Min 1 ''Question is required'',
                Min 10 ''Question must be at least 10 characters'',
                Max 500 ''Question must be less than 500 characters'',
                Trim]"

definition pollOptionSchema :: "string \<Rightarrow> string list \<times> string" where
  "pollOptionSchema =
     zodString [Min 1 ''Option cannot be empty'',
                Min 2 ''Option must be at least 2 characters'',
                Max 200 ''Option must be less than 200 characters'',
                Trim]"

text \<open>
  The array schema: the length checks of the array first, then the elements in order,
  then the refinement on the parsed elements (\<^verbatim>\<open>new Set(...).size\<close> is the number of
  different elements).
\<close>

definition pollOptionsSchema :: "string list \<Rightarrow> string list \<times> string list" where
  "pollOptionsSchema options =
     (let arrayIssues =
            (if length options < 2 then [''At least 2 options are required''] else []) @
            (if length options > 10 then [''Maximum 10 options allowed''] else []);
          parsed = map pollOptionSchema options;
          data = map snd parsed;
          uniqueOptions = remdups (map toLowerCase data);
          refineIssues =
            (if length uniqueOptions = length data then []
             else [''Options must be unique (case-insensitive)''])
      in (arrayIssues @ concat (map fst parsed) @ refineIssues, data))"

text \<open>
  \<^verbatim>\<open>createPollSchema.safeParse({ question, options })\<close>, and \<^verbatim>\<open>updatePollSchema\<close>, which
  is the same schema: the keys are parsed in the order of the schema. \<^const>\<open>Inl\<close> holds
  the messages of \<^verbatim>\<open>error.errors\<close> (never empty), \<^const>\<open>Inr\<close> the parsed data.
\<close>

definition createPollSchema :: "string \<times> string list \<Rightarrow> string list + string \<times> string list" where
  "createPollSchema input =
     (let (questionIssues, question) = pollQuestionSchema (fst input);
          (optionsIssues, options) = pollOptionsSchema (snd input);
          errors = questionIssues @ optionsIssues
      in if errors = [] then Inr (question, options) else Inl errors)"

definition updatePollSchema :: "string \<times> string list \<Rightarrow> string list + string \<times> string list" where
  "updatePollSchema = createPollSchema"

section \<open>The data store\<close>

text \<open>
  The tables the actions use, as the repository's SQL declares them; a field is named
  after its table and column. Identifiers are UUID strings. A vote's account reference
  is \<^const>\<open>None\<close> for SQL \<^verbatim>\<open>NULL\<close>.
\<close>

record PollRow =
  polls_id :: string
  polls_user_id :: string
  polls_question :: string
  polls_options :: "string list"
  polls_is_active :: bool

record VoteRow =
  votes_poll_id :: string
  votes_user_id :: "string option"
  votes_option_index :: int
  votes_signature :: string

record Database =
  polls :: "PollRow list"
  votes :: "VoteRow list"

text \<open>
  The client \<^verbatim>\<open>createClient()\<close> resolves to: one field for every call the actions make
  on it. The store is a hosted service outside the repository, so the actions are
  modelled for any client. \<open>auth_getUser\<close> is what \<^verbatim>\<open>supabase.auth.getUser()\<close>
  resolves to for the request, \<^verbatim>\<open>data.user\<close> (its \<^verbatim>\<open>id\<close>) and \<^verbatim>\<open>error\<close>. A query
  yields its \<^verbatim>\<open>data\<close> and \<^verbatim>\<open>error\<close>; a statement that may write also yields the
  database after it.
  \<^item> \<open>polls_insert user_id question options\<close>:
    \<^verbatim>\<open>from("polls").insert([{user_id, question, options}])\<close>
  \<^item> \<open>polls_select_id id\<close>: \<^verbatim>\<open>from("polls").select("id").eq("id", id).single()\<close>
  \<^item> \<open>polls_select_owned id user_id\<close>:
    \<^verbatim>\<open>from("polls").select("*").eq("id", id).eq("user_id", user_id).single()\<close>
  \<^item> \<open>polls_delete_owned id user_id\<close>:
    \<^verbatim>\<open>from("polls").delete().eq("id", id).eq("user_id", user_id).select()\<close>
  \<^item> \<open>polls_update_owned id user_id question options\<close>:
    \<^verbatim>\<open>from("polls").update({question, options}).eq("id", id).eq("user_id", user_id).select()\<close>
  \<^item> \<open>votes_insert row\<close>: \<^verbatim>\<open>from("votes").insert([row])\<close>
\<close>

record SupabaseClient =
  auth_getUser :: "string option \<times> BackendError option"
  polls_insert ::
    "string \<Rightarrow> string \<Rightarrow> string list \<Rightarrow> Database \<Rightarrow> BackendError option \<times> Database"
  polls_select_id :: "string \<Rightarrow> Database \<Rightarrow> string option \<times> BackendError option"
  polls_select_owned ::
    "string \<Rightarrow> string \<Rightarrow> Database \<Rightarrow> PollRow option \<times> BackendError option"
  polls_delete_owned ::
    "string \<Rightarrow> string \<Rightarrow> Database
       \<Rightarrow> (PollRow list option \<times> BackendError option) \<times> Database"
  polls_update_owned ::
    "string \<Rightarrow> string \<Rightarrow> string \<Rightarrow> string list \<Rightarrow> Database
       \<Rightarrow> (PollRow list option \<times> BackendError option) \<times> Database"
  votes_insert :: "VoteRow \<Rightarrow> Database \<Rightarrow> BackendError option \<times> Database"

subsection \<open>A reference store\<close>

text \<open>
  A client that behaves as the repository's migrations set the store up, used where a
  statement is about stored rows. \<^verbatim>\<open>.single()\<close> fails with the code \<^verbatim>\<open>PGRST116\<close>
  unless exactly one row is selected. Inserting a vote is checked against the policy
  \<^verbatim>\<open>votes_insert_public\<close> (the poll exists and is active; code \<^verbatim>\<open>42501\<close>) and the
  unique index \<^verbatim>\<open>idx_votes_poll_signature_unique\<close> on \<^verbatim>\<open>(poll_id, signature)\<close> (code
  \<^verbatim>\<open>23505\<close>). The policies on \<^verbatim>\<open>polls\<close> ask for the owner to be the caller, which
  the actions' own filters already do. \<open>session\<close> is the answer of
  \<^verbatim>\<open>auth.getUser()\<close> and \<open>uuid\<close> the identifier \<^verbatim>\<open>gen_random_uuid()\<close> gives a
  new poll.
\<close>

definition single :: "'a list \<Rightarrow> 'a option \<times> BackendError option" where
  "single rows =
     (case rows of
        [row] \<Rightarrow> (Some row, None)
      | _ \<Rightarrow> (None, Some \<lparr>code = Some ''PGRST116'',
                 message = Some ''JSON object requested, multiple (or no) rows returned''\<rparr>))"

definition owned :: "string \<Rightarrow> string \<Rightarrow> PollRow \<Rightarrow> bool" where
  "owned id' user_id row = (polls_id row = id' \<and> polls_user_id row = user_id)"

definition store_polls_insert ::
  "string \<Rightarrow> string \<Rightarrow> string \<Rightarrow> string list \<Rightarrow> Database \<Rightarrow> BackendError option \<times> Database" where
  "store_polls_insert uuid user_id question options db =
     (None, db\<lparr>polls := polls db @
        [\<lparr>polls_id = uuid, polls_user_id = user_id, polls_question = question,
          polls_options = options, polls_is_active = True\<rparr>]\<rparr>)"

definition store_polls_select_id :: "string \<Rightarrow> Database \<Rightarrow> string option \<times> BackendError option" where
  "store_polls_select_id id' db =
     single (map polls_id (filter (\<lambda>row. polls_id row = id') (polls db)))"

definition store_polls_select_owned ::
  "string \<Rightarrow> string \<Rightarrow> Database \<Rightarrow> PollRow option \<times> BackendError option" where
  "store_polls_select_owned id' user_id db = single (filter (owned id' user_id) (polls db))"

definition store_polls_delete_owned ::
  "string \<Rightarrow> string \<Rightarrow> Database \<Rightarrow> (PollRow list option \<times> BackendError option) \<times> Database" where
  "store_polls_delete_owned id' user_id db =
     ((Some (filter (owned id' user_id) (polls db)), None),
      db\<lparr>polls := filter (\<lambda>row. \<not> owned id' user_id row) (polls db),
         votes := filter (\<lambda>v. votes_poll_id v \<notin> polls_id ` set (filter (owned id' user_id) (polls db)))
                    (votes db)\<rparr>)"

definition store_polls_update_owned ::
  "string \<Rightarrow> string \<Rightarrow> string \<Rightarrow> string list \<Rightarrow> Database
     \<Rightarrow> (PollRow list option \<times> BackendError option) \<times> Database" where
  "store_polls_update_owned id' user_id question options db =
     (let change = (\<lambda>row. if owned id' user_id row
                          then row\<lparr>polls_question := question, polls_options := options\<rparr>
                          else row)
      in ((Some (map change (filter (owned id' user_id) (polls db))), None),
          db\<lparr>polls := map change (polls db)\<rparr>))"

definition store_votes_insert :: "VoteRow \<Rightarrow> Database \<Rightarrow> BackendError option \<times> Database" where
  "store_votes_insert row db =
     (if \<not> (\<exists>p \<in> set (polls db). polls_id p = votes_poll_id row \<and> polls_is_active p)
      then (Some \<lparr>code = Some ''42501'',
                  message = Some ''new row violates row-level security policy for table votes''\<rparr>,
            db)
      else if \<exists>v \<in> set (votes db).
                votes_poll_id v = votes_poll_id row \<and> votes_signature v = votes_signature row
      then (Some \<lparr>code = Some ''23505'',
                  message = Some ''duplicate key value violates unique constraint idx_votes_poll_signature_unique''\<rparr>,
            db)
      else (None, db\<lparr>votes := votes db @ [row]\<rparr>))"

definition referenceStore :: "string option \<times> BackendError option \<Rightarrow> string \<Rightarrow> SupabaseClient" where
  "referenceStore session uuid =
     \<lparr>auth_getUser = session,
      polls_insert = store_polls_insert uuid,
      polls_select_id = store_polls_select_id,
      polls_select_owned = store_polls_select_owned,
      polls_delete_owned = store_polls_delete_owned,
      polls_update_owned = store_polls_update_owned,
      votes_insert = store_votes_insert\<rparr>"

section \<open>The actions (\<^verbatim>\<open>src/app/lib/actions/poll-actions.ts\<close>)\<close>

text \<open>
  The state the actions work on: the rate limiter's store (process memory), the
  database, and the paths given to \<^verbatim>\<open>revalidatePath\<close> so far.
\<close>

record Server =
  rateLimitStore :: RateLimitStore
  database :: Database
  revalidated :: "string list"

text \<open>What an action reads from its request: the headers and the clock.\<close>

record Request =
  headersList :: headers
  dateNow :: int

text \<open>The envelope \<^verbatim>\<open>{ ok, error? }\<close>.\<close>

record Result =
  ok :: bool
  error :: "js_value option"

definition failure :: "string \<Rightarrow> Result" where
  "failure msg = \<lparr>ok = False, error = Some (Str msg)\<rparr>"

definition success :: Result where
  "success = \<lparr>ok = True, error = None\<rparr>"

text \<open>\<^verbatim>\<open>rateLimitCheck(action)\<close>: \<^verbatim>\<open>checkRateLimit\<close> with its default window and limit.\<close>

definition rateLimitCheck :: "Request \<Rightarrow> string \<Rightarrow> RateLimitStore \<Rightarrow> Result \<times> RateLimitStore" where
  "rateLimitCheck req action store =
     (let (result, store') = checkRateLimit (headersList req) (dateNow req) action 60000 20 store
      in if \<not> allowed result
         then (\<lparr>ok = False, error = Some (Str ''Too many requests. Please try again later.'')\<rparr>,
               store')
         else (\<lparr>ok = True, error = None\<rparr>, store'))"

text \<open>The form an action is given: the field \<^verbatim>\<open>question\<close> and the fields \<^verbatim>\<open>options\<close>.\<close>

record FormData =
  get_question :: "FormDataEntryValue option"
  getAll_options :: "FormDataEntryValue list"

text \<open>\<^verbatim>\<open>Boolean(value)\<close> for a form value: a file and a non-empty string are truthy.\<close>

fun truthy_entry :: "FormDataEntryValue \<Rightarrow> bool" where
  "truthy_entry (Text s) = (s \<noteq> [])"
| "truthy_entry File = True"

text \<open>
  The two lines both \<^verbatim>\<open>createPoll\<close> and \<^verbatim>\<open>updatePoll\<close> start with: the sanitized
  \<^verbatim>\<open>question\<close> and \<^verbatim>\<open>options\<close> handed to the schema.
\<close>

definition sanitizedInput :: "FormData \<Rightarrow> string \<times> string list" where
  "sanitizedInput formData =
     (let question = sanitizeText (get_question formData);
          options = map (\<lambda>v. sanitizeText (Some v)) (filter truthy_entry (getAll_options formData))
      in (question, options))"

definition createPoll ::
  "SupabaseClient \<Rightarrow> Request \<Rightarrow> FormData \<Rightarrow> Server \<Rightarrow> Result \<times> Server" where
  "createPoll supabase req formData s =
     (let (rateLimitResult, store') = rateLimitCheck req ''createPoll'' (rateLimitStore s);
          s1 = s\<lparr>rateLimitStore := store'\<rparr>
      in if \<not> ok rateLimitResult then (rateLimitResult, s1)
         else case createPollSchema (sanitizedInput formData) of
           Inl errors \<Rightarrow> (failure (hd errors), s1)
         | Inr (validatedQuestion, validatedOptions) \<Rightarrow>
             (case auth_getUser supabase of
                (_, Some userError) \<Rightarrow>
                  (\<lparr>ok = False, error = Some (getFriendlyErrorMessage userError)\<rparr>, s1)
              | (None, None) \<Rightarrow> (failure ''You must be logged in'', s1)
              | (Some user_id, None) \<Rightarrow>
                  (case polls_insert supabase user_id validatedQuestion validatedOptions (database s1) of
                     (Some err, db') \<Rightarrow>
                       (\<lparr>ok = False, error = Some (getFriendlyErrorMessage err)\<rparr>,
                        s1\<lparr>database := db'\<rparr>)
                   | (None, db') \<Rightarrow>
                       (success,
                        s1\<lparr>database := db',
                           revalidated := revalidated s1 @ [''/dashboard/polls'']\<rparr>))))"

text \<open>\<^verbatim>\<open>getPollById(id)\<close>: the pair is \<^verbatim>\<open>{ poll, error }\<close>.\<close>

definition getPollById ::
  "SupabaseClient \<Rightarrow> string \<Rightarrow> Database \<Rightarrow> PollRow option \<times> js_value option" where
  "getPollById supabase id' db =
     (case auth_getUser supabase of
        (_, Some userError) \<Rightarrow> (None, Some (Str ''Authentication required''))
      | (None, None) \<Rightarrow> (None, Some (Str ''Authentication required''))
      | (Some user_id, None) \<Rightarrow>
          (case polls_select_owned supabase id' user_id db of
             (data, Some err) \<Rightarrow> (None, Some (getFriendlyErrorMessage err))
           | (data, None) \<Rightarrow> (data, None)))"

text \<open>
  The argument \<^verbatim>\<open>optionIndex\<close> as it arrives at run time: a number, or a value of
  another type. Numbers are whole numbers here; fractions, \<^verbatim>\<open>NaN\<close> and the infinities
  are outside the model.
\<close>

datatype js_arg = Number int | NonNumber

definition submitVote ::
  "SupabaseClient \<Rightarrow> Request \<Rightarrow> string \<Rightarrow> js_arg \<Rightarrow> string option \<Rightarrow> Server
     \<Rightarrow> Result \<times> Server" where
  "submitVote supabase req pollId optionIndex voteSignature s =
     (let (rateLimitResult, store') = rateLimitCheck req ''submitVote'' (rateLimitStore s);
          s1 = s\<lparr>rateLimitStore := store'\<rparr>
      in if \<not> ok rateLimitResult then (rateLimitResult, s1)
         else
           let user = fst (auth_getUser supabase);
               (poll, pollError) = polls_select_id supabase pollId (database s1)
           in if pollError \<noteq> None \<or> poll = None then (failure ''Poll not found.'', s1)
              else case optionIndex of
                NonNumber \<Rightarrow> (failure ''Invalid option selected.'', s1)
              | Number n \<Rightarrow>
                  if n < 0 then (failure ''Invalid option selected.'', s1)
                  else if \<not> truthy voteSignature then (failure ''Vote signature required.'', s1)
                  else
                    (case votes_insert supabase
                            \<lparr>votes_poll_id = pollId, votes_user_id = user,
                             votes_option_index = n, votes_signature = the voteSignature\<rparr>
                            (database s1) of
                       (Some err, db') \<Rightarrow>
                         if code err = Some ''23505''
                         then (failure ''You have already voted on this poll.'',
                               s1\<lparr>database := db'\<rparr>)
                         else (\<lparr>ok = False, error = Some (getFriendlyErrorMessage err)\<rparr>,
                               s1\<lparr>database := db'\<rparr>)
                     | (None, db') \<Rightarrow>
                         (success,
                          s1\<lparr>database := db',
                             revalidated := revalidated s1 @ [''/poll/'' @ pollId]\<rparr>)))"

definition deletePoll ::
  "SupabaseClient \<Rightarrow> Request \<Rightarrow> string \<Rightarrow> Server \<Rightarrow> Result \<times> Server" where
  "deletePoll supabase req id' s =
     (let (rateLimitResult, store') = rateLimitCheck req ''deletePoll'' (rateLimitStore s);
          s1 = s\<lparr>rateLimitStore := store'\<rparr>
      in if \<not> ok rateLimitResult then (rateLimitResult, s1)
         else case auth_getUser supabase of
           (_, Some userError) \<Rightarrow>
             (\<lparr>ok = False, error = Some (getFriendlyErrorMessage userError)\<rparr>, s1)
         | (None, None) \<Rightarrow> (failure ''You must be logged in'', s1)
         | (Some user_id, None) \<Rightarrow>
             (case polls_delete_owned supabase id' user_id (database s1) of
                ((data, Some err), db') \<Rightarrow>
                  (\<lparr>ok = False, error = Some (getFriendlyErrorMessage err)\<rparr>,
                   s1\<lparr>database := db'\<rparr>)
              | ((data, None), db') \<Rightarrow>
                  if data = None \<or> data = Some []
                  then (failure ''Poll not found or you don't have permission to delete it.'',
                        s1\<lparr>database := db'\<rparr>)
                  else (success,
                        s1\<lparr>database := db',
                           revalidated := revalidated s1 @ [''/dashboard/polls'']\<rparr>)))"

definition updatePoll ::
  "SupabaseClient \<Rightarrow> Request \<Rightarrow> string \<Rightarrow> FormData \<Rightarrow> Server \<Rightarrow> Result \<times> Server" where
  "updatePoll supabase req pollId formData s =
     (let (rateLimitResult, store') = rateLimitCheck req ''updatePoll'' (rateLimitStore s);
          s1 = s\<lparr>rateLimitStore := store'\<rparr>
      in if \<not> ok rateLimitResult then (rateLimitResult, s1)
         else case updatePollSchema (sanitizedInput formData) of
           Inl errors \<Rightarrow> (failure (hd errors), s1)
         | Inr (validatedQuestion, validatedOptions) \<Rightarrow>
             (case auth_getUser supabase of
                (_, Some userError) \<Rightarrow>
                  (\<lparr>ok = False, error = Some (getFriendlyErrorMessage userError)\<rparr>, s1)
              | (None, None) \<Rightarrow> (failure ''You must be logged in'', s1)
              | (Some user_id, None) \<Rightarrow>
                  (case polls_update_owned supabase pollId user_id validatedQuestion
                          validatedOptions (database s1) of
                     ((data, Some err), db') \<Rightarrow>
                       (\<lparr>ok = False, error = Some (getFriendlyErrorMessage err)\<rparr>,
                        s1\<lparr>database := db'\<rparr>)
                   | ((data, None), db') \<Rightarrow>
                       if data = None \<or> data = Some []
                       then (failure ''Poll not found or you don't have permission to update it.'',
                             s1\<lparr>database := db'\<rparr>)
                       else (success,
                             s1\<lparr>database := db',
                                revalidated := revalidated s1 @ [''/dashboard/polls'']\<rparr>))))"

section \<open>The validation rules in the specification's words\<close>

text \<open>
  What the specification says of an input the validation accepts: a question of 10 to
  500 characters, and 2 to 10 options, each of 2 to 200 characters after trimming and
  no two the same when case is ignored.
\<close>

definition validQuestion :: "string \<Rightarrow> bool" where
  "validQuestion q = (10 \<le> length q \<and> length q \<le> 500)"

definition validOption :: "string \<Rightarrow> bool" where
  "validOption opt = (2 \<le> length (trim opt) \<and> length (trim opt) \<le> 200)"

definition acceptedBySpec :: "string \<Rightarrow> string list \<Rightarrow> bool" where
  "acceptedBySpec q opts =
     (validQuestion q \<and> 2 \<le> length opts \<and> length opts \<le> 10 \<and>
      list_all validOption opts \<and> distinct (map (\<lambda>opt. toLowerCase (trim opt)) opts))"

text \<open>
  The specification's fail-fast reading: the rules in the order the schemas declare
  them (the question's rules, the number of options, the rules of each option in turn,
  uniqueness), and the message of the first rule the input breaks.
\<close>

definition failingOptionRule :: "string \<Rightarrow> string option" where
  "failingOptionRule opt =
     (if length opt < 1 then Some ''Option cannot be empty''
      else if length opt < 2 then Some ''Option must be at least 2 characters''
      else if length opt > 200 then Some ''Option must be less than 200 characters''
      else None)"

fun firstFailingOption :: "string list \<Rightarrow> string option" where
  "firstFailingOption [] = None"
| "firstFailingOption (opt # opts) =
     (case failingOptionRule opt of Some m \<Rightarrow> Some m | None \<Rightarrow> firstFailingOption opts)"

definition firstFailingRule :: "string \<Rightarrow> string list \<Rightarrow> string option" where
  "firstFailingRule q opts =
     (if length q < 1 then Some ''Question is required''
      else if length q < 10 then Some ''Question must be at least 10 characters''
      else if length q > 500 then Some ''Question must be less than 500 characters''
      else if length opts < 2 then Some ''At least 2 options are required''
      else if length opts > 10 then Some ''Maximum 10 options allowed''
      else case firstFailingOption opts of
             Some m \<Rightarrow> Some m
           | None \<Rightarrow> if distinct (map toLowerCase opts) then None
                     else Some ''Options must be unique (case-insensitive)'')"

subsection \<open>The message patterns as a table\<close>

text \<open>
  The substring patterns of \<^verbatim>\<open>getFriendlyErrorMessage\<close> in the order the function
  tries them, each with its message; \<open>patternMessage\<close> is the message of the first pattern
  the text contains, or the generic fallback.
\<close>

definition patternMessages :: "(string \<times> string) list" where
  "patternMessages =
     [(''duplicate key'', ''This item already exists.''),
      (''foreign key'', ''Referenced item not found.''),
      (''permission denied'', ''You do not have permission to perform this action.''),
      (''not found'', ''Requested resource not found.''),
      (''unauthorized'', ''Authentication required.''),
      (''forbidden'', ''You do not have permission to perform this action.''),
      (''rate limit'', ''Too many requests. Please try again later.''),
      (''timeout'', ''Request timed out. Please try again.''),
      (''network'', ''Network error. Please check your connection and try again.'')]"

definition patternMessage :: "string option \<Rightarrow> string" where
  "patternMessage msg =
     (case msg of
        None \<Rightarrow> ''An unexpected error occurred. Please try again.''
      | Some text \<Rightarrow>
          (case find (\<lambda>(pattern, friendly). includes_str text pattern) patternMessages of
             Some (pattern, friendly) \<Rightarrow> friendly
           | None \<Rightarrow> ''An unexpected error occurred. Please try again.''))"

section \<open>The rate limiter's window\<close>

lemma check_fresh:
  "(case store (rateLimitKey h a) of None \<Rightarrow> True | Some e \<Rightarrow> now > resetTime e) \<Longrightarrow>
   checkRateLimit h now a w m store =
     (\<lparr>allowed = True, remaining = m - 1, resetAt = now + w\<rparr>,
      store(rateLimitKey h a \<mapsto> \<lparr>count = 1, resetTime = now + w\<rparr>))"
  by (auto simp: checkRateLimit_def rateLimitKey_def Let_def split: option.splits)

lemma check_incr:
  "store (rateLimitKey h a) = Some e \<Longrightarrow> now \<le> resetTime e \<Longrightarrow> count e < m \<Longrightarrow>
   checkRateLimit h now a w m store =
     (\<lparr>allowed = True, remaining = m - (count e + 1), resetAt = resetTime e\<rparr>,
      store(rateLimitKey h a \<mapsto> e\<lparr>count := count e + 1\<rparr>))"
  by (auto simp: checkRateLimit_def rateLimitKey_def Let_def split: option.splits)

lemma check_reject:
  "store (rateLimitKey h a) = Some e \<Longrightarrow> now \<le> resetTime e \<Longrightarrow> count e \<ge> m \<Longrightarrow>
   checkRateLimit h now a w m store =
     (\<lparr>allowed = False, remaining = 0, resetAt = resetTime e\<rparr>, store)"
  by (auto simp: checkRateLimit_def rateLimitKey_def Let_def split: option.splits)

lemma checkAll_window:
  "store (rateLimitKey h a) = Some e \<Longrightarrow> 0 \<le> count e \<Longrightarrow> count e \<le> 20 \<Longrightarrow>
   \<forall>t \<in> set nows. t \<le> resetTime e \<Longrightarrow>
   fst (checkAll h a nows store) =
     replicate (min (nat (20 - count e)) (length nows)) True @
     replicate (length nows - nat (20 - count e)) False \<and>
   snd (checkAll h a nows store) (rateLimitKey h a) =
     Some (e\<lparr>count := min 20 (count e + int (length nows))\<rparr>)"
proof (induction nows arbitrary: store e)
  case Nil
  then show ?case by simp
next
  case (Cons now nows)
  show ?case
  proof (cases "count e < 20")
    case True
    let ?e' = "e\<lparr>count := count e + 1\<rparr>"
    let ?s' = "store(rateLimitKey h a \<mapsto> ?e')"
    have step: "checkRateLimit h now a 60000 20 store =
      (\<lparr>allowed = True, remaining = 20 - (count e + 1), resetAt = resetTime e\<rparr>, ?s')"
      using Cons.prems True by (intro check_incr) auto
    have ih: "fst (checkAll h a nows ?s') =
        replicate (min (nat (20 - count ?e')) (length nows)) True @
        replicate (length nows - nat (20 - count ?e')) False \<and>
      snd (checkAll h a nows ?s') (rateLimitKey h a) =
        Some (?e'\<lparr>count := min 20 (count ?e' + int (length nows))\<rparr>)"
      using Cons.prems True by (intro Cons.IH) auto
    have n: "nat (20 - count e) = Suc (nat (20 - (count e + 1)))"
      using True Cons.prems by simp
    show ?thesis
      using ih by (simp add: step n split_beta add.commute add.left_commute)
  next
    case False
    then have c20: "count e = 20" using Cons.prems by simp
    have step: "checkRateLimit h now a 60000 20 store =
      (\<lparr>allowed = False, remaining = 0, resetAt = resetTime e\<rparr>, store)"
      using Cons.prems c20 by (intro check_reject) auto
    have ih: "fst (checkAll h a nows store) =
        replicate (min (nat (20 - count e)) (length nows)) True @
        replicate (length nows - nat (20 - count e)) False \<and>
      snd (checkAll h a nows store) (rateLimitKey h a) =
        Some (e\<lparr>count := min 20 (count e + int (length nows))\<rparr>)"
      using Cons.prems by (intro Cons.IH) auto
    show ?thesis
      using ih by (simp add: step c20 split_beta)
  qed
qed

lemma checkAll_from_fresh:
  assumes fresh: "store (rateLimitKey h a) = None \<or>
                  (\<exists>e. store (rateLimitKey h a) = Some e \<and> now > resetTime e)"
    and window: "\<forall>t \<in> set nows. t \<le> now + 60000"
  shows "fst (checkAll h a (now # nows) store) =
           replicate (min 20 (Suc (length nows))) True @
           replicate (Suc (length nows) - 20) False"
    and "snd (checkAll h a (now # nows) store) (rateLimitKey h a) =
           Some \<lparr>count = min 20 (1 + int (length nows)), resetTime = now + 60000\<rparr>"
proof -
  let ?e = "\<lparr>count = 1, resetTime = now + 60000\<rparr>"
  let ?s = "store(rateLimitKey h a \<mapsto> ?e)"
  have step: "checkRateLimit h now a 60000 20 store =
      (\<lparr>allowed = True, remaining = 20 - 1, resetAt = now + 60000\<rparr>, ?s)"
    using fresh by (intro check_fresh) (auto split: option.splits)
  have rest: "fst (checkAll h a nows ?s) =
        replicate (min (nat (20 - count ?e)) (length nows)) True @
        replicate (length nows - nat (20 - count ?e)) False \<and>
      snd (checkAll h a nows ?s) (rateLimitKey h a) =
        Some (?e\<lparr>count := min 20 (count ?e + int (length nows))\<rparr>)"
    using window by (intro checkAll_window) auto
  have m: "min 20 (Suc (length nows)) = Suc (min 19 (length nows))"
    by simp
  show "fst (checkAll h a (now # nows) store) =
           replicate (min 20 (Suc (length nows))) True @
           replicate (Suc (length nows) - 20) False"
    using rest by (simp add: step split_beta m del: min_Suc_numeral)
  show "snd (checkAll h a (now # nows) store) (rateLimitKey h a) =
           Some \<lparr>count = min 20 (1 + int (length nows)), resetTime = now + 60000\<rparr>"
    using rest by (simp add: step split_beta)
qed

text \<open>
  The other keys keep their entries, and a sweep that ran before a call (the clock does
  not run backwards) changes neither the answer nor the entry the call leaves: the sweep
  deletes an entry exactly when the next call would start a new window.
\<close>

lemma checkRateLimit_other_keys:
  "key \<noteq> rateLimitKey h a \<Longrightarrow> snd (checkRateLimit h now a w m store) key = store key"
  by (auto simp: checkRateLimit_def rateLimitKey_def Let_def split: option.splits)

lemma checkRateLimit_after_sweep:
  assumes "t \<le> now"
  shows "fst (checkRateLimit h now a w m (sweep t store)) =
           fst (checkRateLimit h now a w m store)"
    and "snd (checkRateLimit h now a w m (sweep t store)) (rateLimitKey h a) =
           snd (checkRateLimit h now a w m store) (rateLimitKey h a)"
  using assms
  by (auto simp: checkRateLimit_def rateLimitKey_def sweep_def Let_def split: option.splits)

text \<open>
  Claim C3. For a client and an action under the defaults (window 60000 ms, at most 20
  requests): when the key has no entry or \<open>now > resetTime\<close>, the call is allowed with
  19 remaining and the entry becomes count 1, reset time \<open>now + 60000\<close>; within the
  window a count below 20 is incremented and the call allowed; at a count of 20 or more
  the call is rejected and the store is left as it is. So of a run of calls that starts
  a window and stays within it the first 20 are allowed and all later ones rejected,
  the count ends at no more than 20, and a call after the window is allowed again and
  starts a new window.
\<close>

theorem checkRateLimit_fixed_window:
  "((store (rateLimitKey h a) = None \<or>
     (\<exists>e. store (rateLimitKey h a) = Some e \<and> now > resetTime e)) \<longrightarrow>
      checkRateLimit h now a 60000 20 store =
        (\<lparr>allowed = True, remaining = 19, resetAt = now + 60000\<rparr>,
         store(rateLimitKey h a \<mapsto> \<lparr>count = 1, resetTime = now + 60000\<rparr>))) \<and>
   (\<forall>e. store (rateLimitKey h a) = Some e \<and> now \<le> resetTime e \<and> count e < 20 \<longrightarrow>
      checkRateLimit h now a 60000 20 store =
        (\<lparr>allowed = True, remaining = 20 - (count e + 1), resetAt = resetTime e\<rparr>,
         store(rateLimitKey h a \<mapsto> e\<lparr>count := count e + 1\<rparr>))) \<and>
   (\<forall>e. store (rateLimitKey h a) = Some e \<and> now \<le> resetTime e \<and> count e \<ge> 20 \<longrightarrow>
      checkRateLimit h now a 60000 20 store =
        (\<lparr>allowed = False, remaining = 0, resetAt = resetTime e\<rparr>, store)) \<and>
   ((store (rateLimitKey h a) = None \<or>
     (\<exists>e. store (rateLimitKey h a) = Some e \<and> now > resetTime e)) \<and>
    (\<forall>t \<in> set nows. t \<le> now + 60000) \<longrightarrow>
      fst (checkAll h a (now # nows) store) =
        replicate (min 20 (Suc (length nows))) True @ replicate (Suc (length nows) - 20) False \<and>
      snd (checkAll h a (now # nows) store) (rateLimitKey h a) =
        Some \<lparr>count = min 20 (1 + int (length nows)), resetTime = now + 60000\<rparr> \<and>
      (\<forall>later. later > now + 60000 \<longrightarrow>
         checkRateLimit h later a 60000 20 (snd (checkAll h a (now # nows) store)) =
           (\<lparr>allowed = True, remaining = 19, resetAt = later + 60000\<rparr>,
            (snd (checkAll h a (now # nows) store))
              (rateLimitKey h a \<mapsto> \<lparr>count = 1, resetTime = later + 60000\<rparr>))))"
proof (intro conjI impI allI)
  assume "store (rateLimitKey h a) = None \<or>
     (\<exists>e. store (rateLimitKey h a) = Some e \<and> now > resetTime e)"
  then show "checkRateLimit h now a 60000 20 store =
        (\<lparr>allowed = True, remaining = 19, resetAt = now + 60000\<rparr>,
         store(rateLimitKey h a \<mapsto> \<lparr>count = 1, resetTime = now + 60000\<rparr>))"
    using check_fresh [where store=store and h=h and a=a and now=now and w=60000 and m=20] by (auto split: option.splits)
next
  fix e
  assume "store (rateLimitKey h a) = Some e \<and> now \<le> resetTime e \<and> count e < 20"
  then show "checkRateLimit h now a 60000 20 store =
        (\<lparr>allowed = True, remaining = 20 - (count e + 1), resetAt = resetTime e\<rparr>,
         store(rateLimitKey h a \<mapsto> e\<lparr>count := count e + 1\<rparr>))"
    using check_incr [where store=store and h=h and a=a and now=now and w=60000 and m=20 and e=e] by simp
next
  fix e
  assume "store (rateLimitKey h a) = Some e \<and> now \<le> resetTime e \<and> count e \<ge> 20"
  then show "checkRateLimit h now a 60000 20 store =
        (\<lparr>allowed = False, remaining = 0, resetAt = resetTime e\<rparr>, store)"
    using check_reject [where store=store and h=h and a=a and now=now and w=60000 and m=20 and e=e] by simp
next
  assume a: "(store (rateLimitKey h a) = None \<or>
     (\<exists>e. store (rateLimitKey h a) = Some e \<and> now > resetTime e)) \<and>
    (\<forall>t \<in> set nows. t \<le> now + 60000)"
  then show "fst (checkAll h a (now # nows) store) =
        replicate (min 20 (Suc (length nows))) True @ replicate (Suc (length nows) - 20) False"
    using checkAll_from_fresh(1) [where store=store and h=h and a=a and now=now and nows=nows] by blast
next
  assume a: "(store (rateLimitKey h a) = None \<or>
     (\<exists>e. store (rateLimitKey h a) = Some e \<and> now > resetTime e)) \<and>
    (\<forall>t \<in> set nows. t \<le> now + 60000)"
  then show "snd (checkAll h a (now # nows) store) (rateLimitKey h a) =
        Some \<lparr>count = min 20 (1 + int (length nows)), resetTime = now + 60000\<rparr>"
    using checkAll_from_fresh(2) [where store=store and h=h and a=a and now=now and nows=nows] by blast
next
  fix later
  assume a: "(store (rateLimitKey h a) = None \<or>
     (\<exists>e. store (rateLimitKey h a) = Some e \<and> now > resetTime e)) \<and>
    (\<forall>t \<in> set nows. t \<le> now + 60000)"
    and l: "later > now + 60000"
  have "snd (checkAll h a (now # nows) store) (rateLimitKey h a) =
        Some \<lparr>count = min 20 (1 + int (length nows)), resetTime = now + 60000\<rparr>"
    using a checkAll_from_fresh(2) [where store=store and h=h and a=a and now=now and nows=nows] by blast
  then show "checkRateLimit h later a 60000 20 (snd (checkAll h a (now # nows) store)) =
           (\<lparr>allowed = True, remaining = 19, resetAt = later + 60000\<rparr>,
            (snd (checkAll h a (now # nows) store))
              (rateLimitKey h a \<mapsto> \<lparr>count = 1, resetTime = later + 60000\<rparr>))"
    using l check_fresh [where store="snd (checkAll h a (now # nows) store)" and h=h and a=a and now=later and w=60000 and m=20] by simp
qed

theorem checkRateLimit_fixed_window_witness:
  "fst (checkAll (\<lambda>_. None) ''submitVote'' (0 # replicate 20 30000) Map.empty) =
     replicate 20 True @ [False] \<and>
   snd (checkAll (\<lambda>_. None) ''submitVote'' (0 # replicate 20 30000) Map.empty)
       ''127.0.0.1:submitVote'' = Some \<lparr>count = 20, resetTime = 60000\<rparr> \<and>
   allowed (fst (checkRateLimit (\<lambda>_. None) 60001 ''submitVote'' 60000 20
     (snd (checkAll (\<lambda>_. None) ''submitVote'' (0 # replicate 20 30000) Map.empty)))) \<and>
   fst (checkRateLimit (\<lambda>_. None) 50 ''submitVote'' 60000 20
          [''127.0.0.1:submitVote'' \<mapsto> \<lparr>count = 5, resetTime = 100\<rparr>]) =
     \<lparr>allowed = True, remaining = 14, resetAt = 100\<rparr> \<and>
   checkRateLimit (\<lambda>_. None) 50 ''submitVote'' 60000 20
          [''127.0.0.1:submitVote'' \<mapsto> \<lparr>count = 20, resetTime = 100\<rparr>] =
     (\<lparr>allowed = False, remaining = 0, resetAt = 100\<rparr>,
      [''127.0.0.1:submitVote'' \<mapsto> \<lparr>count = 20, resetTime = 100\<rparr>])"
proof -
  have k: "rateLimitKey (\<lambda>_. None) ''submitVote'' = ''127.0.0.1:submitVote''"
    by (simp add: rateLimitKey_def getClientIP_def)
  note w = checkRateLimit_fixed_window
    [where h = "\<lambda>_. None" and a = "''submitVote''", unfolded k]
  note run = w [where store = Map.empty and now = 0 and nows = "replicate 20 30000",
    THEN conjunct2, THEN conjunct2, THEN conjunct2, rule_format]
  have pre: "(Map.empty ''127.0.0.1:submitVote'' = (None :: RateLimitEntry option) \<or>
      (\<exists>e. Map.empty ''127.0.0.1:submitVote'' = Some e \<and> 0 > resetTime e)) \<and>
     (\<forall>t \<in> set (replicate 20 30000). t \<le> (0::int) + 60000)"
    by simp
  have a: "fst (checkAll (\<lambda>_. None) ''submitVote'' (0 # replicate 20 30000) Map.empty) =
     replicate 20 True @ [False]"
    using run [OF pre, THEN conjunct1] by (simp del: checkAll.simps)
  have b: "snd (checkAll (\<lambda>_. None) ''submitVote'' (0 # replicate 20 30000) Map.empty)
       ''127.0.0.1:submitVote'' = Some \<lparr>count = 20, resetTime = 60000\<rparr>"
    using run [OF pre, THEN conjunct2, THEN conjunct1] by (simp del: checkAll.simps)
  have c: "allowed (fst (checkRateLimit (\<lambda>_. None) 60001 ''submitVote'' 60000 20
     (snd (checkAll (\<lambda>_. None) ''submitVote'' (0 # replicate 20 30000) Map.empty))))"
    using run [OF pre, THEN conjunct2, THEN conjunct2, rule_format, of 60001]
    by (simp del: checkAll.simps)
  have d: "fst (checkRateLimit (\<lambda>_. None) 50 ''submitVote'' 60000 20
          [''127.0.0.1:submitVote'' \<mapsto> \<lparr>count = 5, resetTime = 100\<rparr>]) =
     \<lparr>allowed = True, remaining = 14, resetAt = 100\<rparr>"
    using w [where store = "[''127.0.0.1:submitVote'' \<mapsto> \<lparr>count = 5, resetTime = 100\<rparr>]"
        and now = 50 and nows = "[]", THEN conjunct2, THEN conjunct1]
    by simp
  have e: "checkRateLimit (\<lambda>_. None) 50 ''submitVote'' 60000 20
          [''127.0.0.1:submitVote'' \<mapsto> \<lparr>count = 20, resetTime = 100\<rparr>] =
     (\<lparr>allowed = False, remaining = 0, resetAt = 100\<rparr>,
      [''127.0.0.1:submitVote'' \<mapsto> \<lparr>count = 20, resetTime = 100\<rparr>])"
    using w [where store = "[''127.0.0.1:submitVote'' \<mapsto> \<lparr>count = 20, resetTime = 100\<rparr>]"
        and now = 50 and nows = "[]", THEN conjunct2, THEN conjunct2, THEN conjunct1]
    by simp
  from a b c d e show ?thesis by blast
qed
section \<open>Vote signatures: round trip and the secret\<close>









text \<open>
  Claim C8, as amended. Loading the signature module raises its error exactly when the
  signing secret is absent or is the empty string; with a non-empty secret loading
  succeeds, the module is bound to that secret, and a generated signature verifies.
\<close>

theorem loadVoteSignature_secret:
  "(loadVoteSignature env = Inl (Error ''VOTE_SIGNING_SECRET environment variable is required'')
      \<longleftrightarrow> env = None \<or> env = Some []) \<and>
   (\<forall>secret. env = Some secret \<and> secret \<noteq> [] \<longrightarrow>
      loadVoteSignature env = Inr secret \<and>
      (\<forall>H p ua ip. verifyVoteSignature H secret p ua (generateVoteSignature H secret p ua ip) ip))"
  by (cases env) (auto simp: loadVoteSignature_def verifyVoteSignature_def)

theorem loadVoteSignature_secret_witness:
  "loadVoteSignature None = Inl (Error ''VOTE_SIGNING_SECRET environment variable is required'') \<and>
   loadVoteSignature (Some ''s3cret'') = Inr ''s3cret'' \<and>
   (\<forall>H. verifyVoteSignature H ''s3cret'' ''p1'' ''Mozilla''
          (generateVoteSignature H ''s3cret'' ''p1'' ''Mozilla'' None) None)"
proof -
  have a: "loadVoteSignature None = Inl (Error ''VOTE_SIGNING_SECRET environment variable is required'')"
    using loadVoteSignature_secret [where env = None] by simp
  have b: "loadVoteSignature (Some ''s3cret'') = Inr ''s3cret'' \<and>
      (\<forall>H p ua ip. verifyVoteSignature H ''s3cret'' p ua (generateVoteSignature H ''s3cret'' p ua ip) ip)"
    using loadVoteSignature_secret [where env = "Some ''s3cret''"] by simp
  from a b show ?thesis by blast
qed

text \<open>
  Claim C8 as stated fails: a secret that is present in the configuration but empty
  makes loading raise the error.
\<close>

theorem loadVoteSignature_empty_counterexample:
  "loadVoteSignature (Some '''') =
     Inl (Error ''VOTE_SIGNING_SECRET environment variable is required'')"
  by (simp add: loadVoteSignature_def)
section \<open>Validation\<close>

lemma dropWhile_id: "xs = [] \<or> \<not> P (hd xs) \<Longrightarrow> dropWhile P xs = xs"
  by (cases xs) auto

lemma trim_ends: "trim s = [] \<or> (\<not> isWhiteSpace (hd (trim s)) \<and> \<not> isWhiteSpace (last (trim s)))"
proof -
  let ?u = "dropWhile isWhiteSpace s"
  let ?v = "dropWhile isWhiteSpace (rev ?u)"
  show ?thesis
  proof (cases "?v = []")
    case True
    then show ?thesis by (simp add: trim_def)
  next
    case False
    then have hv: "\<not> isWhiteSpace (hd ?v)" by (rule hd_dropWhile)
    have u: "?u \<noteq> []"
    proof
      assume "?u = []"
      then have "rev ?u = []" by (simp only: rev.simps)
      then have "?v = []" by (simp only: dropWhile.simps)
      with False show False by blast
    qed
    then have hu: "\<not> isWhiteSpace (hd ?u)" by (rule hd_dropWhile)
    have "rev ?u = takeWhile isWhiteSpace (rev ?u) @ ?v" by simp
    then have "last (rev ?u) = last ?v" using False by (metis last_appendR)
    then have lv: "last ?v = hd ?u" using u by (simp add: last_rev)
    have "hd (trim s) = last ?v" using False by (simp add: trim_def hd_rev)
    moreover have "last (trim s) = hd ?v" using False by (simp add: trim_def last_rev)
    ultimately show ?thesis using hv hu lv by simp
  qed
qed

lemma trim_id: "s = [] \<or> (\<not> isWhiteSpace (hd s) \<and> \<not> isWhiteSpace (last s)) \<Longrightarrow> trim s = s"
proof (cases "s = []")
  case True
  then show ?thesis by (simp add: trim_def)
next
  case False
  assume "s = [] \<or> (\<not> isWhiteSpace (hd s) \<and> \<not> isWhiteSpace (last s))"
  with False have h: "\<not> isWhiteSpace (hd s)" and l: "\<not> isWhiteSpace (last s)" by auto
  have 1: "dropWhile isWhiteSpace s = s" using h by (intro dropWhile_id) simp
  have "hd (rev s) = last s" using False by (simp add: hd_rev)
  then have 2: "dropWhile isWhiteSpace (rev s) = rev s" using l by (intro dropWhile_id) simp
  show ?thesis by (simp add: trim_def 1 2)
qed

lemma trim_trim: "trim (trim s) = trim s"
  using trim_ends [of s] by (intro trim_id)

lemma trim_Nil: "trim [] = []"
  by (simp add: trim_def)

lemma trim_sanitizeText: "trim (sanitizeText v) = sanitizeText v"
  by (simp add: sanitizeText_def trim_trim trim_Nil split: option.splits FormDataEntryValue.splits)

lemma sanitizedInput_trimmed:
  assumes "sanitizedInput formData = (q, opts)"
  shows "trim q = q" and "map trim opts = opts"
proof -
  from assms have q: "q = sanitizeText (get_question formData)"
    and o: "opts = map (\<lambda>v. sanitizeText (Some v)) (filter truthy_entry (getAll_options formData))"
    by (auto simp: sanitizedInput_def Let_def)
  show "trim q = q" by (simp add: q trim_sanitizeText)
  show "map trim opts = opts" by (simp add: o trim_sanitizeText)
qed

lemma pollQuestionSchema_eq:
  "pollQuestionSchema q =
     ((if length q < 1 then [''Question is required''] else []) @
      (if length q < 10 then [''Question must be at least 10 characters''] else []) @
      (if length q > 500 then [''Question must be less than 500 characters''] else []),
      trim q)"
  by (simp add: pollQuestionSchema_def)

lemma pollOptionSchema_eq:
  "pollOptionSchema opt =
     ((if length opt < 1 then [''Option cannot be empty''] else []) @
      (if length opt < 2 then [''Option must be at least 2 characters''] else []) @
      (if length opt > 200 then [''Option must be less than 200 characters''] else []),
      trim opt)"
  by (simp add: pollOptionSchema_def)

lemma option_issues_hd:
  "fst (pollOptionSchema opt) = [] \<longleftrightarrow> failingOptionRule opt = None"
  "failingOptionRule opt = Some m \<Longrightarrow> hd (fst (pollOptionSchema opt) @ rest) = m"
  by (auto simp: pollOptionSchema_eq failingOptionRule_def split: if_splits)

lemma options_issues_hd:
  "concat (map (\<lambda>opt. fst (pollOptionSchema opt)) opts) = [] \<longleftrightarrow> firstFailingOption opts = None"
  "firstFailingOption opts = Some m \<Longrightarrow>
     hd (concat (map (\<lambda>opt. fst (pollOptionSchema opt)) opts) @ rest) = m"
proof (induction opts)
  case Nil
  { case 1 show ?case by simp }
  { case 2 then show ?case by simp }
next
  case (Cons opt opts)
  { case 1 show ?case using Cons.IH(1) option_issues_hd(1) [of opt]
      by (cases "failingOptionRule opt") auto }
  { case 2 show ?case
    proof (cases "failingOptionRule opt")
      case None
      then have "fst (pollOptionSchema opt) = []" using option_issues_hd(1) by blast
      moreover have "firstFailingOption opts = Some m" using 2 None by simp
      ultimately show ?thesis using Cons.IH(2) by simp
    next
      case (Some m')
      then have "m' = m" using 2 by simp
      with Some show ?thesis using option_issues_hd(2) [of opt m] by simp
    qed }
qed

lemma firstFailingOption_None:
  "firstFailingOption opts = None \<longleftrightarrow> (\<forall>opt \<in> set opts. 2 \<le> length opt \<and> length opt \<le> 200)"
  by (induction opts) (auto simp: failingOptionRule_def split: option.splits if_splits)


lemma remdups_length_distinct: "length (remdups xs) = length xs \<longleftrightarrow> distinct xs"
  by (simp add: length_remdups_eq remdups_id_iff_distinct)

lemma pollOptionsSchema_eq:
  "pollOptionsSchema opts =
     ((if length opts < 2 then [''At least 2 options are required''] else []) @
      (if length opts > 10 then [''Maximum 10 options allowed''] else []) @
      concat (map (\<lambda>opt. fst (pollOptionSchema opt)) opts) @
      (if distinct (map toLowerCase (map trim opts)) then []
       else [''Options must be unique (case-insensitive)'']),
      map trim opts)"
proof -
  have d: "map snd (map pollOptionSchema opts) = map trim opts"
    by (simp add: pollOptionSchema_eq)
  have u: "length (remdups (map toLowerCase (map trim opts))) = length (map trim opts)
             \<longleftrightarrow> distinct (map toLowerCase (map trim opts))"
    using remdups_length_distinct [of "map toLowerCase (map trim opts)"] by simp
  show ?thesis
    unfolding pollOptionsSchema_def Let_def d u by (simp add: comp_def)
qed

lemma schema_issues:
  assumes "trim q = q" and "map trim opts = opts"
  shows "fst (pollQuestionSchema q) @ fst (pollOptionsSchema opts) = []
           \<longleftrightarrow> firstFailingRule q opts = None"
    and "firstFailingRule q opts = Some m \<Longrightarrow>
           hd (fst (pollQuestionSchema q) @ fst (pollOptionsSchema opts)) = m"
proof -
  let ?O = "concat (map (\<lambda>opt. fst (pollOptionSchema opt)) opts)"
  show "fst (pollQuestionSchema q) @ fst (pollOptionsSchema opts) = []
           \<longleftrightarrow> firstFailingRule q opts = None"
    using options_issues_hd(1) [of opts]
    by (auto simp: pollQuestionSchema_eq pollOptionsSchema_eq assms firstFailingRule_def
        split: option.splits)
  assume f: "firstFailingRule q opts = Some m"
  show "hd (fst (pollQuestionSchema q) @ fst (pollOptionsSchema opts)) = m"
  proof (cases "firstFailingOption opts")
    case None
    then have "?O = []" using options_issues_hd(1) by blast
    then have h: "\<And>rest. ?O @ rest = rest" by (simp only: append_Nil)
    from f None show ?thesis
      by (auto simp: pollQuestionSchema_eq pollOptionsSchema_eq assms firstFailingRule_def h
          split: if_splits)
  next
    case (Some m')
    have h: "\<And>rest. hd (?O @ rest) = m'" using Some options_issues_hd(2) by blast
    from f Some show ?thesis
      by (auto simp: pollQuestionSchema_eq pollOptionsSchema_eq assms firstFailingRule_def h
          split: if_splits)
  qed
qed

lemma createPollSchema_eq:
  assumes "trim q = q" and "map trim opts = opts"
  shows "createPollSchema (q, opts) =
           (case firstFailingRule q opts of
              None \<Rightarrow> Inr (q, opts)
            | Some m \<Rightarrow> Inl (fst (pollQuestionSchema q) @ fst (pollOptionsSchema opts)))"
proof (cases "firstFailingRule q opts")
  case None
  then have "fst (pollQuestionSchema q) @ fst (pollOptionsSchema opts) = []"
    using schema_issues(1) [OF assms] by blast
  then show ?thesis
    using None by (simp add: createPollSchema_def split_beta pollQuestionSchema_eq
        pollOptionsSchema_eq assms)
next
  case (Some m)
  then have "fst (pollQuestionSchema q) @ fst (pollOptionsSchema opts) \<noteq> []"
    using schema_issues(1) [OF assms] by auto
  then show ?thesis
    using Some by (simp add: createPollSchema_def split_beta)
qed

lemma acceptedBySpec_iff:
  assumes "trim q = q" and "map trim opts = opts"
  shows "acceptedBySpec q opts \<longleftrightarrow> firstFailingRule q opts = None"
proof -
  have t: "\<forall>opt \<in> set opts. trim opt = opt"
    using assms(2) by (simp add: map_idI map_eq_conv [symmetric, where g = "\<lambda>x. x"])
  have a: "list_all validOption opts \<longleftrightarrow> firstFailingOption opts = None"
    using t by (auto simp: firstFailingOption_None list_all_iff validOption_def)
  have m: "map (\<lambda>opt. toLowerCase (trim opt)) opts = map toLowerCase opts"
    using t by simp
  show ?thesis
    unfolding acceptedBySpec_def validQuestion_def a m firstFailingRule_def
    by (auto split: option.splits)
qed

lemma createPoll_invalid:
  assumes "ok (fst (rateLimitCheck req ''createPoll'' (rateLimitStore s)))"
    and "createPollSchema (sanitizedInput formData) = Inl errors"
  shows "createPoll supabase req formData s =
     (failure (hd errors),
      s\<lparr>rateLimitStore := snd (rateLimitCheck req ''createPoll'' (rateLimitStore s))\<rparr>)"
  using assms by (simp add: createPoll_def split_beta)

lemma updatePoll_invalid:
  assumes "ok (fst (rateLimitCheck req ''updatePoll'' (rateLimitStore s)))"
    and "createPollSchema (sanitizedInput formData) = Inl errors"
  shows "updatePoll supabase req pollId formData s =
     (failure (hd errors),
      s\<lparr>rateLimitStore := snd (rateLimitCheck req ''updatePoll'' (rateLimitStore s))\<rparr>)"
  using assms by (simp add: updatePoll_def updatePollSchema_def split_beta)

text \<open>
  Claim C5. For the sanitized question and options of any form, the schema accepts
  exactly the inputs the specification describes (question of 10 to 500 characters, 2
  to 10 options, each of 2 to 200 characters after trimming and no two the same when
  case is ignored) and returns them unchanged; a list with a case-insensitive duplicate
  is rejected; and when the input is rejected, \<^verbatim>\<open>createPoll\<close> and \<^verbatim>\<open>updatePoll\<close> (once
  past the rate limiter) return the one message of the first rule that fails.
\<close>

theorem createPollSchema_accepts:
  assumes "sanitizedInput formData = (q, opts)"
  shows "(createPollSchema (q, opts) = Inr (q, opts) \<longleftrightarrow> acceptedBySpec q opts) \<and>
     ((\<exists>errors. createPollSchema (q, opts) = Inl errors) \<longleftrightarrow> \<not> acceptedBySpec q opts) \<and>
     (\<not> distinct (map toLowerCase opts) \<longrightarrow> (\<exists>errors. createPollSchema (q, opts) = Inl errors)) \<and>
     (\<not> acceptedBySpec q opts \<longrightarrow>
        (\<exists>m. firstFailingRule q opts = Some m \<and>
           (ok (fst (rateLimitCheck req ''createPoll'' (rateLimitStore s))) \<longrightarrow>
              fst (createPoll supabase req formData s) = \<lparr>ok = False, error = Some (Str m)\<rparr>) \<and>
           (ok (fst (rateLimitCheck req ''updatePoll'' (rateLimitStore s))) \<longrightarrow>
              fst (updatePoll supabase req pollId formData s) =
                \<lparr>ok = False, error = Some (Str m)\<rparr>)))"
proof -
  note tr = sanitizedInput_trimmed [OF assms]
  note eq = createPollSchema_eq [OF tr]
  note acc = acceptedBySpec_iff [OF tr]
  have 1: "createPollSchema (q, opts) = Inr (q, opts) \<longleftrightarrow> acceptedBySpec q opts"
    unfolding eq acc by (simp split: option.splits)
  have 2: "(\<exists>errors. createPollSchema (q, opts) = Inl errors) \<longleftrightarrow> \<not> acceptedBySpec q opts"
    unfolding eq acc by (simp split: option.splits)
  have 3: "\<not> distinct (map toLowerCase opts) \<longrightarrow> (\<exists>errors. createPollSchema (q, opts) = Inl errors)"
  proof
    assume nd: "\<not> distinct (map toLowerCase opts)"
    have "map (\<lambda>opt. toLowerCase (trim opt)) opts = map toLowerCase (map trim opts)"
      by (simp only: map_map comp_def)
    then have e: "map (\<lambda>opt. toLowerCase (trim opt)) opts = map toLowerCase opts"
      by (simp only: tr(2))
    have "\<not> distinct (map (\<lambda>opt. toLowerCase (trim opt)) opts)"
      unfolding e by (rule nd)
    then have "\<not> acceptedBySpec q opts"
      unfolding acceptedBySpec_def by blast
    with 2 show "\<exists>errors. createPollSchema (q, opts) = Inl errors" by blast
  qed
  have 4: "\<not> acceptedBySpec q opts \<longrightarrow>
        (\<exists>m. firstFailingRule q opts = Some m \<and>
           (ok (fst (rateLimitCheck req ''createPoll'' (rateLimitStore s))) \<longrightarrow>
              fst (createPoll supabase req formData s) = \<lparr>ok = False, error = Some (Str m)\<rparr>) \<and>
           (ok (fst (rateLimitCheck req ''updatePoll'' (rateLimitStore s))) \<longrightarrow>
              fst (updatePoll supabase req pollId formData s) =
                \<lparr>ok = False, error = Some (Str m)\<rparr>))"
  proof
    assume "\<not> acceptedBySpec q opts"
    then obtain m where m: "firstFailingRule q opts = Some m"
      using acc by auto
    let ?errors = "fst (pollQuestionSchema q) @ fst (pollOptionsSchema opts)"
    have e: "createPollSchema (sanitizedInput formData) = Inl ?errors"
      using eq m assms by simp
    have h: "hd ?errors = m"
      using schema_issues(2) [OF tr m] .
    have c: "fst (createPoll supabase req formData s) = \<lparr>ok = False, error = Some (Str m)\<rparr>"
      if "ok (fst (rateLimitCheck req ''createPoll'' (rateLimitStore s)))"
      using createPoll_invalid [OF that e] h by (simp add: failure_def)
    have u: "fst (updatePoll supabase req pollId formData s) = \<lparr>ok = False, error = Some (Str m)\<rparr>"
      if "ok (fst (rateLimitCheck req ''updatePoll'' (rateLimitStore s)))"
      using updatePoll_invalid [OF that e] h by (simp add: failure_def)
    from m c u show "\<exists>m. firstFailingRule q opts = Some m \<and>
           (ok (fst (rateLimitCheck req ''createPoll'' (rateLimitStore s))) \<longrightarrow>
              fst (createPoll supabase req formData s) = \<lparr>ok = False, error = Some (Str m)\<rparr>) \<and>
           (ok (fst (rateLimitCheck req ''updatePoll'' (rateLimitStore s))) \<longrightarrow>
              fst (updatePoll supabase req pollId formData s) =
                \<lparr>ok = False, error = Some (Str m)\<rparr>)"
      by blast
  qed
  from 1 2 3 4 show ?thesis by blast
qed

theorem createPollSchema_accepts_witness:
  "createPollSchema (''What is your favorite color?'', [''Red'', ''Blue'']) =
     Inr (''What is your favorite color?'', [''Red'', ''Blue'']) \<and>
   (\<exists>errors. createPollSchema (''bWhat is your favorite color?/b'', [''Red'', ''rED'']) =
      Inl errors) \<and>
   fst (createPoll (referenceStore (Some ''alice'', None) ''p2'')
          \<lparr>headersList = (\<lambda>_. None), dateNow = 1000\<rparr>
          \<lparr>get_question = Some (Text '' <b>What is your favorite color?</b>''),
           getAll_options = [Text ''Red'', Text [], Text ''rED '']\<rparr>
          \<lparr>rateLimitStore = Map.empty, database = \<lparr>polls = [], votes = []\<rparr>,
           revalidated = []\<rparr>) =
     \<lparr>ok = False, error = Some (Str ''Options must be unique (case-insensitive)'')\<rparr>"
proof -
  let ?req = "\<lparr>headersList = (\<lambda>_. None), dateNow = 1000\<rparr>"
  let ?s = "\<lparr>rateLimitStore = Map.empty, database = \<lparr>polls = [], votes = []\<rparr>,
            revalidated = []\<rparr>"
  let ?sb = "referenceStore (Some ''alice'', None) ''p2''"
  let ?fd1 = "\<lparr>get_question = Some (Text ''What is your favorite color?''),
              getAll_options = [Text ''Red'', Text ''Blue'']\<rparr>"
  let ?fd2 = "\<lparr>get_question = Some (Text '' <b>What is your favorite color?</b>''),
              getAll_options = [Text ''Red'', Text [], Text ''rED '']\<rparr>"
  have i1: "sanitizedInput ?fd1 = (''What is your favorite color?'', [''Red'', ''Blue''])"
    by code_simp
  have a1: "acceptedBySpec ''What is your favorite color?'' [''Red'', ''Blue'']"
    by code_simp
  have i2: "sanitizedInput ?fd2 = (''bWhat is your favorite color?/b'', [''Red'', ''rED''])"
    by code_simp
  have a2: "\<not> acceptedBySpec ''bWhat is your favorite color?/b'' [''Red'', ''rED'']"
    by code_simp
  have d2: "\<not> distinct (map toLowerCase [''Red'', ''rED''])"
    by code_simp
  have f2: "firstFailingRule ''bWhat is your favorite color?/b'' [''Red'', ''rED''] =
      Some ''Options must be unique (case-insensitive)''"
    by code_simp
  have rl: "ok (fst (rateLimitCheck ?req ''createPoll'' (rateLimitStore ?s)))"
    by (simp add: rateLimitCheck_def checkRateLimit_def)
  have w1: "createPollSchema (''What is your favorite color?'', [''Red'', ''Blue'']) =
     Inr (''What is your favorite color?'', [''Red'', ''Blue''])"
    using createPollSchema_accepts [OF i1] a1 by blast
  have w2: "\<exists>errors. createPollSchema (''bWhat is your favorite color?/b'', [''Red'', ''rED'']) =
      Inl errors"
    using createPollSchema_accepts [OF i2] d2 by blast
  have w3: "fst (createPoll ?sb ?req ?fd2 ?s) =
     \<lparr>ok = False, error = Some (Str ''Options must be unique (case-insensitive)'')\<rparr>"
    using createPollSchema_accepts [OF i2, where req = ?req and s = ?s and supabase = ?sb]
      a2 f2 rl by auto
  from w1 w2 w3 show ?thesis by blast
qed
section \<open>Friendly error messages\<close>

lemma property_cases:
  "property obj key = None \<or>
   (\<exists>v \<in> snd ` set obj. property obj key = Some (Str v)) \<or>
   (key \<in> set objectPrototypeMembers \<and> property obj key = Some (Inherited key))"
proof (cases "map_of (rev obj) key")
  case None
  then show ?thesis by (simp add: property_def)
next
  case (Some v)
  then have "(key, v) \<in> set (rev obj)" by (rule map_of_SomeD)
  then have "v \<in> snd ` set obj" by force
  with Some show ?thesis by (simp add: property_def)
qed

lemma getFriendlyErrorMessage_range:
  "(\<exists>m \<in> friendlyMessages. getFriendlyErrorMessage e = Str m) \<or>
   (\<exists>k \<in> set objectPrototypeMembers.
      (code e = Some k \<or> message e = Some k) \<and> getFriendlyErrorMessage e = Inherited k)"
proof -
  have tp: "\<And>obj k. truthy_value (property obj k) \<Longrightarrow>
      (\<exists>v \<in> snd ` set obj. the (property obj k) = Str v) \<or>
      (k \<in> set objectPrototypeMembers \<and> the (property obj k) = Inherited k)"
  proof -
    fix obj k
    assume t: "truthy_value (property obj k)"
    from property_cases [of obj k] show
      "(\<exists>v \<in> snd ` set obj. the (property obj k) = Str v) \<or>
       (k \<in> set objectPrototypeMembers \<and> the (property obj k) = Inherited k)"
    proof (elim disjE)
      assume "property obj k = None"
      with t show ?thesis by simp
    next
      assume "\<exists>v \<in> snd ` set obj. property obj k = Some (Str v)"
      then obtain v where "v \<in> snd ` set obj" and "property obj k = Some (Str v)" by blast
      then show ?thesis by auto
    next
      assume "k \<in> set objectPrototypeMembers \<and> property obj k = Some (Inherited k)"
      then show ?thesis by simp
    qed
  qed
  have sub1: "snd ` set DB_ERROR_MESSAGES \<subseteq> friendlyMessages"
    unfolding friendlyMessages_def by blast
  have sub2: "snd ` set SUPABASE_ERROR_MESSAGES \<subseteq> friendlyMessages"
    unfolding friendlyMessages_def by blast
  have db: "\<And>k. truthy_value (property DB_ERROR_MESSAGES k) \<Longrightarrow>
      (\<exists>m \<in> friendlyMessages. the (property DB_ERROR_MESSAGES k) = Str m) \<or>
      (k \<in> set objectPrototypeMembers \<and> the (property DB_ERROR_MESSAGES k) = Inherited k)"
    using tp [of DB_ERROR_MESSAGES] sub1 by blast
  have sb: "\<And>k. truthy_value (property SUPABASE_ERROR_MESSAGES k) \<Longrightarrow>
      (\<exists>m \<in> friendlyMessages. the (property SUPABASE_ERROR_MESSAGES k) = Str m) \<or>
      (k \<in> set objectPrototypeMembers \<and> the (property SUPABASE_ERROR_MESSAGES k) = Inherited k)"
    using tp [of SUPABASE_ERROR_MESSAGES] sub2 by blast
  have lit: "\<And>m. m \<in> {''This item already exists.'', ''Referenced item not found.'',
      ''You do not have permission to perform this action.'',
      ''Requested resource not found.'', ''Authentication required.'',
      ''Too many requests. Please try again later.'',
      ''Request timed out. Please try again.'',
      ''Network error. Please check your connection and try again.'',
      ''An unexpected error occurred. Please try again.''} \<Longrightarrow> m \<in> friendlyMessages"
    unfolding friendlyMessages_def by blast
  show ?thesis
  proof (cases "truthy (code e) \<and> truthy_value (property DB_ERROR_MESSAGES (the (code e)))")
    case True
    then obtain k where k: "code e = Some k" by (cases "code e") auto
    with True db [of k] show ?thesis by (auto simp: getFriendlyErrorMessage_def)
  next
    case c: False
    show ?thesis
    proof (cases "truthy (message e) \<and>
        truthy_value (property SUPABASE_ERROR_MESSAGES (the (message e)))")
      case True
      then obtain k where k: "message e = Some k" by (cases "message e") auto
      with True c sb [of k] show ?thesis by (auto simp: getFriendlyErrorMessage_def)
    next
      case False
      have "\<exists>m \<in> friendlyMessages. getFriendlyErrorMessage e = Str m"
        using c False unfolding getFriendlyErrorMessage_def
        by (simp only: if_False) (auto intro!: lit)
      then show ?thesis by blast
    qed
  qed
qed

lemma getFriendlyErrorMessage_friendly:
  "(\<forall>k. code e = Some k \<longrightarrow> k \<notin> set objectPrototypeMembers) \<Longrightarrow>
   (\<forall>k. message e = Some k \<longrightarrow> k \<notin> set objectPrototypeMembers) \<Longrightarrow>
   \<exists>m \<in> friendlyMessages. getFriendlyErrorMessage e = Str m"
  using getFriendlyErrorMessage_range [of e] by blast

lemma property_own:
  assumes "key \<in> fst ` set obj"
  shows "\<exists>v. (key, v) \<in> set obj \<and> property obj key = Some (Str v)"
proof -
  have mem: "key \<in> fst ` set (rev obj)" using assms by simp
  have "map_of (rev obj) key = None \<longleftrightarrow> key \<notin> fst ` set (rev obj)"
    by (rule map_of_eq_None_iff)
  with mem have "map_of (rev obj) key \<noteq> None" by blast
  then obtain v where v: "map_of (rev obj) key = Some v"
    by blast
  then have "(key, v) \<in> set (rev obj)" by (rule map_of_SomeD)
  with v show ?thesis by (auto simp: property_def)
qed

lemma property_absent:
  assumes "key \<notin> fst ` set obj" and "key \<notin> set objectPrototypeMembers"
  shows "property obj key = None"
proof -
  have "key \<notin> fst ` set (rev obj)" using assms(1) by simp
  then have "map_of (rev obj) key = None" by (rule map_of_eq_None_iff [THEN iffD2])
  with assms(2) show ?thesis by (simp add: property_def)
qed

lemma table_values_nonempty:
  "\<forall>(k, v) \<in> set DB_ERROR_MESSAGES. k \<noteq> [] \<and> v \<noteq> []"
  "\<forall>(k, v) \<in> set SUPABASE_ERROR_MESSAGES. k \<noteq> [] \<and> v \<noteq> []"
  by (simp_all add: DB_ERROR_MESSAGES_def SUPABASE_ERROR_MESSAGES_def)

lemma code_lookup_falsy:
  assumes "\<forall>c. code e = Some c \<longrightarrow> c \<notin> fst ` set DB_ERROR_MESSAGES"
    and "\<forall>k. code e = Some k \<longrightarrow> k \<notin> set objectPrototypeMembers"
  shows "\<not> (truthy (code e) \<and> truthy_value (property DB_ERROR_MESSAGES (the (code e))))"
proof (cases "code e")
  case None
  then show ?thesis by simp
next
  case (Some c)
  then have "property DB_ERROR_MESSAGES c = None"
    using assms by (intro property_absent) auto
  with Some show ?thesis by simp
qed

lemma message_lookup_falsy:
  assumes "\<forall>k. message e = Some k \<longrightarrow> k \<notin> fst ` set SUPABASE_ERROR_MESSAGES"
    and "\<forall>k. message e = Some k \<longrightarrow> k \<notin> set objectPrototypeMembers"
  shows "\<not> (truthy (message e) \<and>
            truthy_value (property SUPABASE_ERROR_MESSAGES (the (message e))))"
proof (cases "message e")
  case None
  then show ?thesis by simp
next
  case (Some k)
  then have "property SUPABASE_ERROR_MESSAGES k = None"
    using assms by (intro property_absent) auto
  with Some show ?thesis by simp
qed

lemma friendly_by_code:
  assumes "code e = Some c" and "c \<in> fst ` set DB_ERROR_MESSAGES"
  shows "\<exists>m. (c, m) \<in> set DB_ERROR_MESSAGES \<and> getFriendlyErrorMessage e = Str m"
proof -
  obtain m where m: "(c, m) \<in> set DB_ERROR_MESSAGES"
    and p: "property DB_ERROR_MESSAGES c = Some (Str m)"
    using property_own [OF assms(2)] by blast
  from m table_values_nonempty(1) have "c \<noteq> [] \<and> m \<noteq> []" by blast
  then have "getFriendlyErrorMessage e = Str m"
    using assms(1) p by (simp add: getFriendlyErrorMessage_def)
  with m show ?thesis by blast
qed

lemma friendly_by_message:
  assumes "\<not> (truthy (code e) \<and> truthy_value (property DB_ERROR_MESSAGES (the (code e))))"
    and "message e = Some k" and "k \<in> fst ` set SUPABASE_ERROR_MESSAGES"
  shows "\<exists>m. (k, m) \<in> set SUPABASE_ERROR_MESSAGES \<and> getFriendlyErrorMessage e = Str m"
proof -
  obtain m where m: "(k, m) \<in> set SUPABASE_ERROR_MESSAGES"
    and p: "property SUPABASE_ERROR_MESSAGES k = Some (Str m)"
    using property_own [OF assms(3)] by blast
  from m table_values_nonempty(2) have "k \<noteq> [] \<and> m \<noteq> []" by blast
  then have "getFriendlyErrorMessage e = Str m"
    unfolding getFriendlyErrorMessage_def if_not_P [OF assms(1)]
    using assms(2) p by simp
  with m show ?thesis by blast
qed

lemma friendly_by_pattern:
  assumes "\<not> (truthy (code e) \<and> truthy_value (property DB_ERROR_MESSAGES (the (code e))))"
    and "\<not> (truthy (message e) \<and>
            truthy_value (property SUPABASE_ERROR_MESSAGES (the (message e))))"
  shows "getFriendlyErrorMessage e = Str (patternMessage (message e))"
proof -
  have "getFriendlyErrorMessage e =
      (if messageIncludes e ''duplicate key'' then Str ''This item already exists.''
       else if messageIncludes e ''foreign key'' then Str ''Referenced item not found.''
       else if messageIncludes e ''permission denied''
       then Str ''You do not have permission to perform this action.''
       else if messageIncludes e ''not found'' then Str ''Requested resource not found.''
       else if messageIncludes e ''unauthorized'' then Str ''Authentication required.''
       else if messageIncludes e ''forbidden''
       then Str ''You do not have permission to perform this action.''
       else if messageIncludes e ''rate limit''
       then Str ''Too many requests. Please try again later.''
       else if messageIncludes e ''timeout'' then Str ''Request timed out. Please try again.''
       else if messageIncludes e ''network''
       then Str ''Network error. Please check your connection and try again.''
       else Str ''An unexpected error occurred. Please try again.'')"
    using assms unfolding getFriendlyErrorMessage_def by (simp only: if_False)
  also have "\<dots> = Str (patternMessage (message e))"
    by (cases "message e")
       (simp_all add: messageIncludes_def patternMessage_def patternMessages_def)
  finally show ?thesis .
qed


text \<open>
  Claim C9. For every backend error whose code and message are not names of members of
  \<^verbatim>\<open>Object.prototype\<close> (no code or message of the store or of the authentication
  service is), \<^verbatim>\<open>getFriendlyErrorMessage\<close> returns one of the fixed friendly messages,
  never the error's own text: the entry of the code table when the code is one of its
  keys; otherwise the entry of the message table when the message is one of its keys;
  otherwise the message of the first pattern the error's message contains; otherwise the
  generic \<^verbatim>\<open>An unexpected error occurred. Please try again.\<close>
\<close>

theorem getFriendlyErrorMessage_table_message:
  assumes "\<forall>k. code e = Some k \<longrightarrow> k \<notin> set objectPrototypeMembers"
    and "\<forall>k. message e = Some k \<longrightarrow> k \<notin> set objectPrototypeMembers"
  shows "(\<exists>m \<in> friendlyMessages. getFriendlyErrorMessage e = Str m) \<and>
    (\<forall>c. code e = Some c \<and> c \<in> fst ` set DB_ERROR_MESSAGES \<longrightarrow>
       (\<exists>m. (c, m) \<in> set DB_ERROR_MESSAGES \<and> getFriendlyErrorMessage e = Str m)) \<and>
    ((\<forall>c. code e = Some c \<longrightarrow> c \<notin> fst ` set DB_ERROR_MESSAGES) \<longrightarrow>
       (\<forall>k. message e = Some k \<and> k \<in> fst ` set SUPABASE_ERROR_MESSAGES \<longrightarrow>
          (\<exists>m. (k, m) \<in> set SUPABASE_ERROR_MESSAGES \<and> getFriendlyErrorMessage e = Str m)) \<and>
       ((\<forall>k. message e = Some k \<longrightarrow> k \<notin> fst ` set SUPABASE_ERROR_MESSAGES) \<longrightarrow>
          getFriendlyErrorMessage e = Str (patternMessage (message e))))"
proof (intro conjI impI allI)
  show "\<exists>m \<in> friendlyMessages. getFriendlyErrorMessage e = Str m"
    using assms by (rule getFriendlyErrorMessage_friendly)
next
  fix c
  assume "code e = Some c \<and> c \<in> fst ` set DB_ERROR_MESSAGES"
  then show "\<exists>m. (c, m) \<in> set DB_ERROR_MESSAGES \<and> getFriendlyErrorMessage e = Str m"
    using friendly_by_code [of e c] by blast
next
  fix k
  assume nc: "\<forall>c. code e = Some c \<longrightarrow> c \<notin> fst ` set DB_ERROR_MESSAGES"
    and "message e = Some k \<and> k \<in> fst ` set SUPABASE_ERROR_MESSAGES"
  then show "\<exists>m. (k, m) \<in> set SUPABASE_ERROR_MESSAGES \<and> getFriendlyErrorMessage e = Str m"
    using friendly_by_message [OF code_lookup_falsy [OF nc assms(1)], of k] by blast
next
  assume nc: "\<forall>c. code e = Some c \<longrightarrow> c \<notin> fst ` set DB_ERROR_MESSAGES"
    and nm: "\<forall>k. message e = Some k \<longrightarrow> k \<notin> fst ` set SUPABASE_ERROR_MESSAGES"
  show "getFriendlyErrorMessage e = Str (patternMessage (message e))"
    using code_lookup_falsy [OF nc assms(1)] message_lookup_falsy [OF nm assms(2)]
    by (rule friendly_by_pattern)
qed

theorem getFriendlyErrorMessage_table_message_witness:
  "getFriendlyErrorMessage
     \<lparr>code = Some ''23505'', message = Some ''duplicate key value violates unique constraint''\<rparr> =
     Str ''This action has already been completed.'' \<and>
   getFriendlyErrorMessage \<lparr>code = None, message = Some ''invalid_credentials''\<rparr> =
     Str ''Invalid email or password.'' \<and>
   getFriendlyErrorMessage
     \<lparr>code = Some ''XX000'', message = Some ''connection timeout while reading''\<rparr> =
     Str ''Request timed out. Please try again.'' \<and>
   getFriendlyErrorMessage \<lparr>code = None, message = Some ''Auth session missing!''\<rparr> =
     Str ''An unexpected error occurred. Please try again.''"
proof -
  let ?e1 = "\<lparr>code = Some ''23505'',
              message = Some ''duplicate key value violates unique constraint''\<rparr>"
  let ?e2 = "\<lparr>code = None, message = Some ''invalid_credentials''\<rparr>"
  let ?e3 = "\<lparr>code = Some ''XX000'', message = Some ''connection timeout while reading''\<rparr>"
  let ?e4 = "\<lparr>code = None, message = Some ''Auth session missing!''\<rparr>"
  have p1: "\<forall>k. code ?e1 = Some k \<longrightarrow> k \<notin> set objectPrototypeMembers"
    "\<forall>k. message ?e1 = Some k \<longrightarrow> k \<notin> set objectPrototypeMembers"
    by (simp_all add: objectPrototypeMembers_def)
  have p2: "\<forall>k. code ?e2 = Some k \<longrightarrow> k \<notin> set objectPrototypeMembers"
    "\<forall>k. message ?e2 = Some k \<longrightarrow> k \<notin> set objectPrototypeMembers"
    by (simp_all add: objectPrototypeMembers_def)
  have p3: "\<forall>k. code ?e3 = Some k \<longrightarrow> k \<notin> set objectPrototypeMembers"
    "\<forall>k. message ?e3 = Some k \<longrightarrow> k \<notin> set objectPrototypeMembers"
    by (simp_all add: objectPrototypeMembers_def)
  have p4: "\<forall>k. code ?e4 = Some k \<longrightarrow> k \<notin> set objectPrototypeMembers"
    "\<forall>k. message ?e4 = Some k \<longrightarrow> k \<notin> set objectPrototypeMembers"
    by (simp_all add: objectPrototypeMembers_def)
  have k1: "code ?e1 = Some ''23505'' \<and> ''23505'' \<in> fst ` set DB_ERROR_MESSAGES"
    by (simp add: DB_ERROR_MESSAGES_def)
  have v1: "\<And>m. (''23505'', m) \<in> set DB_ERROR_MESSAGES \<Longrightarrow>
      m = ''This action has already been completed.''"
    by (simp add: DB_ERROR_MESSAGES_def)
  have 1: "getFriendlyErrorMessage ?e1 = Str ''This action has already been completed.''"
    using getFriendlyErrorMessage_table_message [OF p1, THEN conjunct2, THEN conjunct1,
        rule_format, OF k1] v1
    by blast
  have n2: "\<forall>c. code ?e2 = Some c \<longrightarrow> c \<notin> fst ` set DB_ERROR_MESSAGES"
    by simp
  have k2: "message ?e2 = Some ''invalid_credentials'' \<and>
      ''invalid_credentials'' \<in> fst ` set SUPABASE_ERROR_MESSAGES"
    by (simp add: SUPABASE_ERROR_MESSAGES_def)
  have v2: "\<And>m. (''invalid_credentials'', m) \<in> set SUPABASE_ERROR_MESSAGES \<Longrightarrow>
      m = ''Invalid email or password.''"
    by (simp add: SUPABASE_ERROR_MESSAGES_def)
  have 2: "getFriendlyErrorMessage ?e2 = Str ''Invalid email or password.''"
    using getFriendlyErrorMessage_table_message [OF p2, THEN conjunct2, THEN conjunct2,
        THEN mp, OF n2, THEN conjunct1, rule_format, OF k2] v2
    by blast
  have n3: "\<forall>c. code ?e3 = Some c \<longrightarrow> c \<notin> fst ` set DB_ERROR_MESSAGES"
    by (simp add: DB_ERROR_MESSAGES_def)
  have m3: "\<forall>k. message ?e3 = Some k \<longrightarrow> k \<notin> fst ` set SUPABASE_ERROR_MESSAGES"
    by (simp add: SUPABASE_ERROR_MESSAGES_def)
  have e3: "patternMessage (message ?e3) = ''Request timed out. Please try again.''"
    by code_simp
  have 3: "getFriendlyErrorMessage ?e3 = Str ''Request timed out. Please try again.''"
    using getFriendlyErrorMessage_table_message [OF p3, THEN conjunct2, THEN conjunct2,
        THEN mp, OF n3, THEN conjunct2, THEN mp, OF m3] e3
    by simp
  have n4: "\<forall>c. code ?e4 = Some c \<longrightarrow> c \<notin> fst ` set DB_ERROR_MESSAGES"
    by simp
  have m4: "\<forall>k. message ?e4 = Some k \<longrightarrow> k \<notin> fst ` set SUPABASE_ERROR_MESSAGES"
    by (simp add: SUPABASE_ERROR_MESSAGES_def)
  have e4: "patternMessage (message ?e4) = ''An unexpected error occurred. Please try again.''"
    by code_simp
  have 4: "getFriendlyErrorMessage ?e4 = Str ''An unexpected error occurred. Please try again.''"
    using getFriendlyErrorMessage_table_message [OF p4, THEN conjunct2, THEN conjunct2,
        THEN mp, OF n4, THEN conjunct2, THEN mp, OF m4] e4
    by simp
  from 1 2 3 4 show ?thesis by blast
qed

text \<open>
  The hypothesis on the names is needed: the tables are plain object literals, and the
  lookup of a name such as \<^verbatim>\<open>constructor\<close> finds the inherited member.
\<close>

lemma getFriendlyErrorMessage_inherited_member:
  "getFriendlyErrorMessage
     \<lparr>code = Some ''constructor'', message = Some ''relation does not exist''\<rparr>
     = Inherited ''constructor''"
  by (simp add: getFriendlyErrorMessage_def property_def DB_ERROR_MESSAGES_def
      objectPrototypeMembers_def)

section \<open>The actions: votes\<close>

lemma submitVote_insert:
  assumes "ok (fst (rateLimitCheck req ''submitVote'' (rateLimitStore s)))"
    and "polls_select_id supabase pollId (database s) = (Some pid, None)"
    and "0 \<le> n" and "sig \<noteq> []"
  shows "submitVote supabase req pollId (Number n) (Some sig) s =
     (let s1 = s\<lparr>rateLimitStore := snd (rateLimitCheck req ''submitVote'' (rateLimitStore s))\<rparr>
      in case votes_insert supabase
                \<lparr>votes_poll_id = pollId, votes_user_id = fst (auth_getUser supabase),
                 votes_option_index = n, votes_signature = sig\<rparr> (database s) of
           (Some err, db') \<Rightarrow>
             if code err = Some ''23505''
             then (failure ''You have already voted on this poll.'', s1\<lparr>database := db'\<rparr>)
             else (\<lparr>ok = False, error = Some (getFriendlyErrorMessage err)\<rparr>,
                   s1\<lparr>database := db'\<rparr>)
         | (None, db') \<Rightarrow>
             (success,
              s1\<lparr>database := db', revalidated := revalidated s1 @ [''/poll/'' @ pollId]\<rparr>))"
  using assms by (simp add: submitVote_def split_beta Let_def)

text \<open>
  Claim C2. For every call of \<^verbatim>\<open>submitVote\<close> that reaches the insert (the rate limiter
  allows it, the poll is found, the index is a number not below zero and the signature is
  a non-empty string) and for any store: when the insert fails with the code 23505 the
  result is \<^verbatim>\<open>{ok: false, error: "You have already voted on this poll."}\<close>, and when
  the insert succeeds the result is \<^verbatim>\<open>{ok: true}\<close> and the database is the one the
  insert left.
\<close>

theorem submitVote_conflict:
  assumes "ok (fst (rateLimitCheck req ''submitVote'' (rateLimitStore s)))"
    and "polls_select_id supabase pollId (database s) = (Some pid, None)"
    and "0 \<le> n" and "sig \<noteq> []"
  shows "(\<forall>err db'.
            votes_insert supabase
              \<lparr>votes_poll_id = pollId, votes_user_id = fst (auth_getUser supabase),
               votes_option_index = n, votes_signature = sig\<rparr> (database s) = (Some err, db') \<and>
            code err = Some ''23505'' \<longrightarrow>
            fst (submitVote supabase req pollId (Number n) (Some sig) s) =
              \<lparr>ok = False, error = Some (Str ''You have already voted on this poll.'')\<rparr>) \<and>
         (\<forall>db'.
            votes_insert supabase
              \<lparr>votes_poll_id = pollId, votes_user_id = fst (auth_getUser supabase),
               votes_option_index = n, votes_signature = sig\<rparr> (database s) = (None, db') \<longrightarrow>
            fst (submitVote supabase req pollId (Number n) (Some sig) s) =
              \<lparr>ok = True, error = None\<rparr> \<and>
            database (snd (submitVote supabase req pollId (Number n) (Some sig) s)) = db')"
  unfolding submitVote_insert [OF assms]
  by (simp add: Let_def failure_def success_def)


theorem submitVote_conflict_witness:
  "fst (submitVote (referenceStore (None, None) ''p9'')
          \<lparr>headersList = (\<lambda>_. None), dateNow = 1000\<rparr> ''p1'' (Number 1) (Some ''sig'')
          \<lparr>rateLimitStore = Map.empty,
           database = \<lparr>polls = [\<lparr>polls_id = ''p1'', polls_user_id = ''alice'',
                                polls_question = ''What is your favorite color?'',
                                polls_options = [''Red'', ''Blue''], polls_is_active = True\<rparr>],
                       votes = [\<lparr>votes_poll_id = ''p1'', votes_user_id = None,
                                votes_option_index = 0, votes_signature = ''sig''\<rparr>]\<rparr>,
           revalidated = []\<rparr>) =
     \<lparr>ok = False, error = Some (Str ''You have already voted on this poll.'')\<rparr> \<and>
   fst (submitVote (referenceStore (None, None) ''p9'')
          \<lparr>headersList = (\<lambda>_. None), dateNow = 1000\<rparr> ''p1'' (Number 0) (Some ''sig'')
          \<lparr>rateLimitStore = Map.empty,
           database = \<lparr>polls = [\<lparr>polls_id = ''p1'', polls_user_id = ''alice'',
                                polls_question = ''What is your favorite color?'',
                                polls_options = [''Red'', ''Blue''], polls_is_active = True\<rparr>],
                       votes = []\<rparr>,
           revalidated = []\<rparr>) =
     \<lparr>ok = True, error = None\<rparr>"
proof -
  let ?sb = "referenceStore (None, None) ''p9''"
  let ?req = "\<lparr>headersList = (\<lambda>_. None), dateNow = 1000\<rparr>"
  let ?polls = "[\<lparr>polls_id = ''p1'', polls_user_id = ''alice'',
                  polls_question = ''What is your favorite color?'',
                  polls_options = [''Red'', ''Blue''], polls_is_active = True\<rparr>]"
  let ?v = "\<lparr>votes_poll_id = ''p1'', votes_user_id = None,
             votes_option_index = 0, votes_signature = ''sig''\<rparr>"
  let ?s1 = "\<lparr>rateLimitStore = Map.empty, database = \<lparr>polls = ?polls, votes = [?v]\<rparr>,
             revalidated = []\<rparr>"
  let ?s0 = "\<lparr>rateLimitStore = Map.empty, database = \<lparr>polls = ?polls, votes = []\<rparr>,
             revalidated = []\<rparr>"
  have rl: "\<And>s. rateLimitStore s = Map.empty \<Longrightarrow>
      ok (fst (rateLimitCheck ?req ''submitVote'' (rateLimitStore s)))"
    by (simp add: rateLimitCheck_def checkRateLimit_def)
  have sel: "\<And>vs. polls_select_id ?sb ''p1'' \<lparr>polls = ?polls, votes = vs\<rparr> = (Some ''p1'', None)"
    by (simp add: referenceStore_def store_polls_select_id_def single_def)
  have dup: "votes_insert ?sb
      \<lparr>votes_poll_id = ''p1'', votes_user_id = fst (auth_getUser ?sb),
       votes_option_index = 1, votes_signature = ''sig''\<rparr> (database ?s1) =
      (Some \<lparr>code = Some ''23505'',
             message = Some ''duplicate key value violates unique constraint idx_votes_poll_signature_unique''\<rparr>,
       database ?s1)"
    by (simp add: referenceStore_def store_votes_insert_def)
  have new: "votes_insert ?sb
      \<lparr>votes_poll_id = ''p1'', votes_user_id = fst (auth_getUser ?sb),
       votes_option_index = 0, votes_signature = ''sig''\<rparr> (database ?s0) =
      (None, \<lparr>polls = ?polls, votes = [?v]\<rparr>)"
    by (simp add: referenceStore_def store_votes_insert_def)
  have a: "fst (submitVote ?sb ?req ''p1'' (Number 1) (Some ''sig'') ?s1) =
      \<lparr>ok = False, error = Some (Str ''You have already voted on this poll.'')\<rparr>"
    using submitVote_conflict [where supabase = ?sb and req = ?req and s = ?s1
        and pollId = "''p1''" and pid = "''p1''" and n = 1 and sig = "''sig''"]
      rl [of ?s1] sel [of "[?v]"] dup
    by simp
  have b: "fst (submitVote ?sb ?req ''p1'' (Number 0) (Some ''sig'') ?s0) =
      \<lparr>ok = True, error = None\<rparr>"
    using submitVote_conflict [where supabase = ?sb and req = ?req and s = ?s0
        and pollId = "''p1''" and pid = "''p1''" and n = 0 and sig = "''sig''"]
      rl [of ?s0] sel [of "[]"] new
    by simp
  from a b show ?thesis by blast
qed

text \<open>
  What \<^verbatim>\<open>submitVote\<close> checks of the index, for any store: past the rate limiter and
  with the poll found, the invalid-option error is returned exactly when the index is
  not a number or is below zero.
\<close>

lemma invalid_option_not_friendly: "''Invalid option selected.'' \<notin> friendlyMessages"
  by (simp add: friendlyMessages_def DB_ERROR_MESSAGES_def SUPABASE_ERROR_MESSAGES_def)

lemma submitVote_invalid_option_iff:
  assumes "ok (fst (rateLimitCheck req ''submitVote'' (rateLimitStore s)))"
    and "polls_select_id supabase pollId (database s) = (Some pid, None)"
  shows "fst (submitVote supabase req pollId optionIndex voteSignature s) =
           \<lparr>ok = False, error = Some (Str ''Invalid option selected.'')\<rparr>
         \<longleftrightarrow> (optionIndex = NonNumber \<or> (\<exists>n. optionIndex = Number n \<and> n < 0))"
proof (cases optionIndex)
  case NonNumber
  then show ?thesis
    using assms by (simp add: submitVote_def split_beta Let_def failure_def)
next
  case (Number n)
  show ?thesis
  proof (cases "n < 0")
    case True
    then show ?thesis
      using assms Number by (simp add: submitVote_def split_beta Let_def failure_def)
  next
    case False
    have nf: "\<And>e. getFriendlyErrorMessage e \<noteq> Str ''Invalid option selected.''"
      using getFriendlyErrorMessage_range invalid_option_not_friendly by (metis js_value.distinct(1) js_value.inject(1))
    show ?thesis
      using assms Number False nf
      by (auto simp: submitVote_def split_beta Let_def failure_def success_def
          split: option.splits prod.splits)
  qed
qed

text \<open>
  Claim C1 fails on the code. \<^verbatim>\<open>submitVote\<close> selects only the poll's \<^verbatim>\<open>id\<close> and
  rejects an index only when it is not a number or is below zero; it never compares the
  index with the number of options. On a poll with the two options Red and Blue, index 5
  with a fresh signature is answered \<^verbatim>\<open>{ok: true}\<close> and the vote is stored.
\<close>

theorem submitVote_index_out_of_range:
  "fst (submitVote (referenceStore (None, None) ''p9'')
          \<lparr>headersList = (\<lambda>_. None), dateNow = 1000\<rparr> ''p1'' (Number 5) (Some ''sig2'')
          \<lparr>rateLimitStore = Map.empty,
           database = \<lparr>polls = [\<lparr>polls_id = ''p1'', polls_user_id = ''alice'',
                                polls_question = ''What is your favorite color?'',
                                polls_options = [''Red'', ''Blue''], polls_is_active = True\<rparr>],
                       votes = []\<rparr>,
           revalidated = []\<rparr>) =
     \<lparr>ok = True, error = None\<rparr> \<and>
   votes (database (snd (submitVote (referenceStore (None, None) ''p9'')
          \<lparr>headersList = (\<lambda>_. None), dateNow = 1000\<rparr> ''p1'' (Number 5) (Some ''sig2'')
          \<lparr>rateLimitStore = Map.empty,
           database = \<lparr>polls = [\<lparr>polls_id = ''p1'', polls_user_id = ''alice'',
                                polls_question = ''What is your favorite color?'',
                                polls_options = [''Red'', ''Blue''], polls_is_active = True\<rparr>],
                       votes = []\<rparr>,
           revalidated = []\<rparr>))) =
     [\<lparr>votes_poll_id = ''p1'', votes_user_id = None, votes_option_index = 5,
       votes_signature = ''sig2''\<rparr>]"
  by (simp add: submitVote_def rateLimitCheck_def checkRateLimit_def referenceStore_def
      store_polls_select_id_def single_def store_votes_insert_def success_def)

theorem submitVote_index_out_of_range_witness:
  "ok (fst (submitVote (referenceStore (None, None) ''p9'')
          \<lparr>headersList = (\<lambda>_. None), dateNow = 1000\<rparr> ''p1'' (Number 5) (Some ''sig2'')
          \<lparr>rateLimitStore = Map.empty,
           database = \<lparr>polls = [\<lparr>polls_id = ''p1'', polls_user_id = ''alice'',
                                polls_question = ''What is your favorite color?'',
                                polls_options = [''Red'', ''Blue''], polls_is_active = True\<rparr>],
                       votes = []\<rparr>,
           revalidated = []\<rparr>)) \<and>
   map votes_option_index
     (votes (database (snd (submitVote (referenceStore (None, None) ''p9'')
          \<lparr>headersList = (\<lambda>_. None), dateNow = 1000\<rparr> ''p1'' (Number 5) (Some ''sig2'')
          \<lparr>rateLimitStore = Map.empty,
           database = \<lparr>polls = [\<lparr>polls_id = ''p1'', polls_user_id = ''alice'',
                                polls_question = ''What is your favorite color?'',
                                polls_options = [''Red'', ''Blue''], polls_is_active = True\<rparr>],
                       votes = []\<rparr>,
           revalidated = []\<rparr>)))) = [5] \<and>
   \<not> (5 :: int) < int (length [''Red'', ''Blue''])"
  using submitVote_index_out_of_range by simp

section \<open>The actions: ownership and identity\<close>

lemma store_delete_none:
  assumes "\<forall>p \<in> set (polls db). \<not> owned id' u p"
  shows "store_polls_delete_owned id' u db = ((Some [], None), db)"
proof -
  have 1: "filter (owned id' u) (polls db) = []"
    using assms by (simp add: filter_empty_conv)
  have 2: "filter (\<lambda>row. \<not> owned id' u row) (polls db) = polls db"
    using assms by (simp add: filter_id_conv)
  show ?thesis
    by (simp add: store_polls_delete_owned_def 1 2)
qed

lemma deletePoll_zero_rows:
  assumes "polls_delete_owned supabase id' u (database s) = ((data, None), db')"
    and "data = None \<or> data = Some []"
    and "fst (auth_getUser supabase) = Some u"
  shows "deletePoll supabase req id' s =
     (let (r, store') = rateLimitCheck req ''deletePoll'' (rateLimitStore s);
          s1 = s\<lparr>rateLimitStore := store'\<rparr>
      in if \<not> ok r then (r, s1)
         else case snd (auth_getUser supabase) of
                Some userError \<Rightarrow>
                  (\<lparr>ok = False, error = Some (getFriendlyErrorMessage userError)\<rparr>, s1)
              | None \<Rightarrow>
                  (failure ''Poll not found or you don't have permission to delete it.'',
                   s1\<lparr>database := db'\<rparr>))"
  using assms
  by (cases "auth_getUser supabase")
     (auto simp: deletePoll_def split_beta Let_def split: option.splits)

text \<open>
  Claim C6. For an authenticated caller, a poll that exists but is not the caller's, and
  an identifier no poll has: the two calls of \<^verbatim>\<open>deletePoll\<close> on the reference store,
  from the same state and request, give the same result and the same state, nothing is
  deleted, and when the call passes the rate limiter and identity resolution reports no
  error the result is the one merged error \<^verbatim>\<open>Poll not found or you don't have
  permission to delete it.\<close>
\<close>

theorem deletePoll_not_found_or_forbidden:
  assumes "fst session = Some u"
    and "\<exists>p \<in> set (polls (database s)). polls_id p = id1"
    and "\<forall>p \<in> set (polls (database s)). polls_id p = id1 \<longrightarrow> polls_user_id p \<noteq> u"
    and "\<forall>p \<in> set (polls (database s)). polls_id p \<noteq> id2"
  shows "deletePoll (referenceStore session uuid) req id1 s =
           deletePoll (referenceStore session uuid) req id2 s \<and>
         database (snd (deletePoll (referenceStore session uuid) req id1 s)) = database s \<and>
         (ok (fst (rateLimitCheck req ''deletePoll'' (rateLimitStore s))) \<and> snd session = None \<longrightarrow>
            fst (deletePoll (referenceStore session uuid) req id1 s) =
              \<lparr>ok = False,
               error = Some (Str ''Poll not found or you don't have permission to delete it.'')\<rparr>)"
proof -
  let ?sb = "referenceStore session uuid"
  have n1: "\<forall>p \<in> set (polls (database s)). \<not> owned id1 u p"
    using assms(3) by (auto simp: owned_def)
  have n2: "\<forall>p \<in> set (polls (database s)). \<not> owned id2 u p"
    using assms(4) by (auto simp: owned_def)
  have d1: "polls_delete_owned ?sb id1 u (database s) = ((Some [], None), database s)"
    using store_delete_none [OF n1] by (simp add: referenceStore_def)
  have d2: "polls_delete_owned ?sb id2 u (database s) = ((Some [], None), database s)"
    using store_delete_none [OF n2] by (simp add: referenceStore_def)
  have au: "fst (auth_getUser ?sb) = Some u"
    using assms(1) by (simp add: referenceStore_def)
  note e1 = deletePoll_zero_rows [OF d1 _ au, where req = req]
  note e2 = deletePoll_zero_rows [OF d2 _ au, where req = req]
  have eq: "deletePoll ?sb req id1 s = deletePoll ?sb req id2 s"
    using e1 e2 by simp
  have db: "database (snd (deletePoll ?sb req id1 s)) = database s"
    using e1 by (simp add: split_beta Let_def split: option.splits)
  have msg: "fst (deletePoll ?sb req id1 s) =
      \<lparr>ok = False,
       error = Some (Str ''Poll not found or you don't have permission to delete it.'')\<rparr>"
    if "ok (fst (rateLimitCheck req ''deletePoll'' (rateLimitStore s))) \<and> snd session = None"
    using e1 that by (simp add: split_beta Let_def failure_def referenceStore_def)
  from eq db msg show ?thesis by blast
qed

theorem deletePoll_not_found_or_forbidden_witness:
  "deletePoll (referenceStore (Some ''bob'', None) ''p9'')
      \<lparr>headersList = (\<lambda>_. None), dateNow = 1000\<rparr> ''p1''
      \<lparr>rateLimitStore = Map.empty,
       database = \<lparr>polls = [\<lparr>polls_id = ''p1'', polls_user_id = ''alice'',
                            polls_question = ''What is your favorite color?'',
                            polls_options = [''Red'', ''Blue''], polls_is_active = True\<rparr>],
                   votes = []\<rparr>,
       revalidated = []\<rparr> =
   deletePoll (referenceStore (Some ''bob'', None) ''p9'')
      \<lparr>headersList = (\<lambda>_. None), dateNow = 1000\<rparr> ''no-such-poll''
      \<lparr>rateLimitStore = Map.empty,
       database = \<lparr>polls = [\<lparr>polls_id = ''p1'', polls_user_id = ''alice'',
                            polls_question = ''What is your favorite color?'',
                            polls_options = [''Red'', ''Blue''], polls_is_active = True\<rparr>],
                   votes = []\<rparr>,
       revalidated = []\<rparr> \<and>
   fst (deletePoll (referenceStore (Some ''bob'', None) ''p9'')
      \<lparr>headersList = (\<lambda>_. None), dateNow = 1000\<rparr> ''p1''
      \<lparr>rateLimitStore = Map.empty,
       database = \<lparr>polls = [\<lparr>polls_id = ''p1'', polls_user_id = ''alice'',
                            polls_question = ''What is your favorite color?'',
                            polls_options = [''Red'', ''Blue''], polls_is_active = True\<rparr>],
                   votes = []\<rparr>,
       revalidated = []\<rparr>) =
     \<lparr>ok = False,
      error = Some (Str ''Poll not found or you don't have permission to delete it.'')\<rparr>"
proof -
  let ?req = "\<lparr>headersList = (\<lambda>_. None), dateNow = 1000\<rparr>"
  let ?s = "\<lparr>rateLimitStore = Map.empty,
       database = \<lparr>polls = [\<lparr>polls_id = ''p1'', polls_user_id = ''alice'',
                            polls_question = ''What is your favorite color?'',
                            polls_options = [''Red'', ''Blue''], polls_is_active = True\<rparr>],
                   votes = []\<rparr>,
       revalidated = []\<rparr>"
  have 1: "fst (Some ''bob'', None :: BackendError option) = Some ''bob''" by simp
  have 2: "\<exists>p \<in> set (polls (database ?s)). polls_id p = ''p1''" by simp
  have 3: "\<forall>p \<in> set (polls (database ?s)). polls_id p = ''p1'' \<longrightarrow> polls_user_id p \<noteq> ''bob''"
    by simp
  have 4: "\<forall>p \<in> set (polls (database ?s)). polls_id p \<noteq> ''no-such-poll''" by simp
  have rl: "ok (fst (rateLimitCheck ?req ''deletePoll'' (rateLimitStore ?s)))"
    by (simp add: rateLimitCheck_def checkRateLimit_def)
  note t = deletePoll_not_found_or_forbidden [OF 1 2 3 4, where uuid = "''p9''" and req = ?req]
  have 5: "snd (Some ''bob'', None :: BackendError option) = None" by simp
  from t rl 5 show ?thesis by blast
qed

lemma createPoll_anonymous:
  assumes "fst (auth_getUser supabase) = None"
  shows "\<not> ok (fst (createPoll supabase req formData s))"
    and "database (snd (createPoll supabase req formData s)) = database s"
    and "ok (fst (rateLimitCheck req ''createPoll'' (rateLimitStore s))) \<Longrightarrow>
         createPollSchema (sanitizedInput formData) = Inr d \<Longrightarrow>
         snd (auth_getUser supabase) = None \<Longrightarrow>
         fst (createPoll supabase req formData s) =
           \<lparr>ok = False, error = Some (Str ''You must be logged in'')\<rparr>"
  using assms
  by (cases "auth_getUser supabase";
      auto simp: createPoll_def split_beta Let_def failure_def
           split: option.splits sum.splits)+

lemma updatePoll_anonymous:
  assumes "fst (auth_getUser supabase) = None"
  shows "\<not> ok (fst (updatePoll supabase req pollId formData s))"
    and "database (snd (updatePoll supabase req pollId formData s)) = database s"
    and "ok (fst (rateLimitCheck req ''updatePoll'' (rateLimitStore s))) \<Longrightarrow>
         updatePollSchema (sanitizedInput formData) = Inr d \<Longrightarrow>
         snd (auth_getUser supabase) = None \<Longrightarrow>
         fst (updatePoll supabase req pollId formData s) =
           \<lparr>ok = False, error = Some (Str ''You must be logged in'')\<rparr>"
  using assms
  by (cases "auth_getUser supabase";
      auto simp: updatePoll_def split_beta Let_def failure_def
           split: option.splits sum.splits)+

lemma deletePoll_anonymous:
  assumes "fst (auth_getUser supabase) = None"
  shows "\<not> ok (fst (deletePoll supabase req pollId s))"
    and "database (snd (deletePoll supabase req pollId s)) = database s"
    and "ok (fst (rateLimitCheck req ''deletePoll'' (rateLimitStore s))) \<Longrightarrow>
         snd (auth_getUser supabase) = None \<Longrightarrow>
         fst (deletePoll supabase req pollId s) =
           \<lparr>ok = False, error = Some (Str ''You must be logged in'')\<rparr>"
  using assms
  by (cases "auth_getUser supabase";
      auto simp: deletePoll_def split_beta Let_def failure_def
           split: option.splits)+


text \<open>
  What the handlers do by design for a caller with no identity, for any store: the
  result has \<^verbatim>\<open>ok: false\<close> and the database is left as it was; when identity
  resolution reports no error and the call has passed the rate limiter and, for create
  and update, the validation, the error is \<^verbatim>\<open>You must be logged in\<close>. \<^verbatim>\<open>submitVote\<close>
  asks for no identity: with no user, a call that reaches the insert stores the vote with
  a null account reference and succeeds when the insert does.
\<close>

theorem mutations_require_identity:
  assumes "fst (auth_getUser supabase) = None"
  shows "\<not> ok (fst (createPoll supabase req formData s)) \<and>
         database (snd (createPoll supabase req formData s)) = database s \<and>
         \<not> ok (fst (updatePoll supabase req pollId formData s)) \<and>
         database (snd (updatePoll supabase req pollId formData s)) = database s \<and>
         \<not> ok (fst (deletePoll supabase req pollId s)) \<and>
         database (snd (deletePoll supabase req pollId s)) = database s \<and>
         (snd (auth_getUser supabase) = None \<longrightarrow>
            (ok (fst (rateLimitCheck req ''createPoll'' (rateLimitStore s))) \<and>
             (\<exists>d. createPollSchema (sanitizedInput formData) = Inr d) \<longrightarrow>
               fst (createPoll supabase req formData s) =
                 \<lparr>ok = False, error = Some (Str ''You must be logged in'')\<rparr>) \<and>
            (ok (fst (rateLimitCheck req ''updatePoll'' (rateLimitStore s))) \<and>
             (\<exists>d. updatePollSchema (sanitizedInput formData) = Inr d) \<longrightarrow>
               fst (updatePoll supabase req pollId formData s) =
                 \<lparr>ok = False, error = Some (Str ''You must be logged in'')\<rparr>) \<and>
            (ok (fst (rateLimitCheck req ''deletePoll'' (rateLimitStore s))) \<longrightarrow>
               fst (deletePoll supabase req pollId s) =
                 \<lparr>ok = False, error = Some (Str ''You must be logged in'')\<rparr>)) \<and>
         (\<forall>n sig pid db'.
            ok (fst (rateLimitCheck req ''submitVote'' (rateLimitStore s))) \<and>
            polls_select_id supabase pollId (database s) = (Some pid, None) \<and>
            0 \<le> n \<and> sig \<noteq> [] \<and>
            votes_insert supabase
              \<lparr>votes_poll_id = pollId, votes_user_id = None,
               votes_option_index = n, votes_signature = sig\<rparr> (database s) = (None, db') \<longrightarrow>
            fst (submitVote supabase req pollId (Number n) (Some sig) s) =
              \<lparr>ok = True, error = None\<rparr> \<and>
            database (snd (submitVote supabase req pollId (Number n) (Some sig) s)) = db')"
proof -
  note c = createPoll_anonymous [OF assms, where req = req and formData = formData and s = s]
  note u = updatePoll_anonymous [OF assms, where req = req and formData = formData and s = s
      and pollId = pollId]
  note d = deletePoll_anonymous [OF assms, where req = req and s = s and pollId = pollId]
  have v: "fst (submitVote supabase req pollId (Number n) (Some sig) s) =
              \<lparr>ok = True, error = None\<rparr> \<and>
            database (snd (submitVote supabase req pollId (Number n) (Some sig) s)) = db'"
    if "ok (fst (rateLimitCheck req ''submitVote'' (rateLimitStore s))) \<and>
        polls_select_id supabase pollId (database s) = (Some pid, None) \<and>
        0 \<le> n \<and> sig \<noteq> [] \<and>
        votes_insert supabase
          \<lparr>votes_poll_id = pollId, votes_user_id = None,
           votes_option_index = n, votes_signature = sig\<rparr> (database s) = (None, db')"
    for n sig pid db'
    using that assms by (simp add: submitVote_def split_beta Let_def success_def)
  from c u d v show ?thesis by blast
qed

theorem mutations_require_identity_witness:
  "fst (createPoll (referenceStore (None, None) ''p9'')
          \<lparr>headersList = (\<lambda>_. None), dateNow = 1000\<rparr>
          \<lparr>get_question = Some (Text ''What is your favorite color?''),
           getAll_options = [Text ''Red'', Text ''Blue'']\<rparr>
          \<lparr>rateLimitStore = Map.empty, database = \<lparr>polls = [], votes = []\<rparr>,
           revalidated = []\<rparr>) =
     \<lparr>ok = False, error = Some (Str ''You must be logged in'')\<rparr> \<and>
   database (snd (createPoll (referenceStore (None, None) ''p9'')
          \<lparr>headersList = (\<lambda>_. None), dateNow = 1000\<rparr>
          \<lparr>get_question = Some (Text ''What is your favorite color?''),
           getAll_options = [Text ''Red'', Text ''Blue'']\<rparr>
          \<lparr>rateLimitStore = Map.empty, database = \<lparr>polls = [], votes = []\<rparr>,
           revalidated = []\<rparr>)) = \<lparr>polls = [], votes = []\<rparr> \<and>
   fst (deletePoll (referenceStore (None, None) ''p9'')
          \<lparr>headersList = (\<lambda>_. None), dateNow = 1000\<rparr> ''p1''
          \<lparr>rateLimitStore = Map.empty, database = \<lparr>polls = [], votes = []\<rparr>,
           revalidated = []\<rparr>) =
     \<lparr>ok = False, error = Some (Str ''You must be logged in'')\<rparr> \<and>
   votes (database (snd (submitVote (referenceStore (None, None) ''p9'')
          \<lparr>headersList = (\<lambda>_. None), dateNow = 1000\<rparr> ''p1'' (Number 0) (Some ''sig'')
          \<lparr>rateLimitStore = Map.empty,
           database = \<lparr>polls = [\<lparr>polls_id = ''p1'', polls_user_id = ''alice'',
                                polls_question = ''What is your favorite color?'',
                                polls_options = [''Red'', ''Blue''], polls_is_active = True\<rparr>],
                       votes = []\<rparr>,
           revalidated = []\<rparr>))) =
     [\<lparr>votes_poll_id = ''p1'', votes_user_id = None, votes_option_index = 0,
       votes_signature = ''sig''\<rparr>]"
proof -
  let ?sb = "referenceStore (None, None) ''p9''"
  let ?req = "\<lparr>headersList = (\<lambda>_. None), dateNow = 1000\<rparr>"
  let ?fd = "\<lparr>get_question = Some (Text ''What is your favorite color?''),
             getAll_options = [Text ''Red'', Text ''Blue'']\<rparr>"
  let ?s = "\<lparr>rateLimitStore = Map.empty, database = \<lparr>polls = [], votes = []\<rparr>,
            revalidated = []\<rparr>"
  let ?polls = "[\<lparr>polls_id = ''p1'', polls_user_id = ''alice'',
                  polls_question = ''What is your favorite color?'',
                  polls_options = [''Red'', ''Blue''], polls_is_active = True\<rparr>]"
  let ?v = "\<lparr>votes_poll_id = ''p1'', votes_user_id = None, votes_option_index = 0,
             votes_signature = ''sig''\<rparr>"
  let ?s1 = "\<lparr>rateLimitStore = Map.empty, database = \<lparr>polls = ?polls, votes = []\<rparr>,
             revalidated = []\<rparr>"
  have a: "fst (auth_getUser ?sb) = None" by (simp add: referenceStore_def)
  have b: "snd (auth_getUser ?sb) = None" by (simp add: referenceStore_def)
  have rc: "ok (fst (rateLimitCheck ?req ''createPoll'' (rateLimitStore ?s)))"
    by (simp add: rateLimitCheck_def checkRateLimit_def)
  have rd: "ok (fst (rateLimitCheck ?req ''deletePoll'' (rateLimitStore ?s)))"
    by (simp add: rateLimitCheck_def checkRateLimit_def)
  have v: "createPollSchema (sanitizedInput ?fd) =
      Inr (''What is your favorite color?'', [''Red'', ''Blue''])"
    by code_simp
  then have v': "\<exists>d. createPollSchema (sanitizedInput ?fd) = Inr d" by blast
  note t = mutations_require_identity [OF a, where req = ?req and formData = ?fd and s = ?s
      and pollId = "''p1''"]
  have 1: "fst (createPoll ?sb ?req ?fd ?s) =
      \<lparr>ok = False, error = Some (Str ''You must be logged in'')\<rparr>"
    using t b rc v' by blast
  have 2: "database (snd (createPoll ?sb ?req ?fd ?s)) = \<lparr>polls = [], votes = []\<rparr>"
    using t by simp
  have 3: "fst (deletePoll ?sb ?req ''p1'' ?s) =
      \<lparr>ok = False, error = Some (Str ''You must be logged in'')\<rparr>"
    using t b rd by blast
  have pre: "ok (fst (rateLimitCheck ?req ''submitVote'' (rateLimitStore ?s1))) \<and>
      polls_select_id ?sb ''p1'' (database ?s1) = (Some ''p1'', None) \<and>
      (0::int) \<le> 0 \<and> ''sig'' \<noteq> [] \<and>
      votes_insert ?sb ?v (database ?s1) = (None, \<lparr>polls = ?polls, votes = [?v]\<rparr>)"
    by (simp add: rateLimitCheck_def checkRateLimit_def referenceStore_def
        store_polls_select_id_def single_def store_votes_insert_def)
  have 4: "votes (database (snd (submitVote ?sb ?req ''p1'' (Number 0) (Some ''sig'') ?s1))) = [?v]"
    using mutations_require_identity [OF a, where req = ?req and s = ?s1 and pollId = "''p1''",
        THEN conjunct2, THEN conjunct2, THEN conjunct2, THEN conjunct2, THEN conjunct2,
        THEN conjunct2, THEN conjunct2, rule_format, OF pre]
    by simp
  from 1 2 3 4 show ?thesis by blast
qed

text \<open>
  Validation runs before identity is resolved: with no identity and a form without a
  question, \<^verbatim>\<open>createPoll\<close> answers with the validation message.
\<close>

lemma createPoll_validation_first:
  "fst (auth_getUser (referenceStore (None, None) ''p9'')) = None \<and>
   fst (createPoll (referenceStore (None, None) ''p9'')
          \<lparr>headersList = (\<lambda>_. None), dateNow = 1000\<rparr>
          \<lparr>get_question = None, getAll_options = []\<rparr>
          \<lparr>rateLimitStore = Map.empty, database = \<lparr>polls = [], votes = []\<rparr>,
           revalidated = []\<rparr>) =
     \<lparr>ok = False, error = Some (Str ''Question is required'')\<rparr>"
proof -
  have v: "createPollSchema (sanitizedInput \<lparr>get_question = None, getAll_options = []\<rparr>) =
      Inl [''Question is required'', ''Question must be at least 10 characters'',
           ''At least 2 options are required'']"
    by code_simp
  show ?thesis
    by (simp add: createPoll_def v rateLimitCheck_def checkRateLimit_def failure_def
        referenceStore_def)
qed

text \<open>
  When identity resolution reports an error, the three handlers return the friendly
  mapping of that error, for any store.
\<close>

lemma deletePoll_identity_error:
  assumes "ok (fst (rateLimitCheck req ''deletePoll'' (rateLimitStore s)))"
    and "auth_getUser supabase = (user, Some userError)"
  shows "fst (deletePoll supabase req id' s) =
           \<lparr>ok = False, error = Some (getFriendlyErrorMessage userError)\<rparr>"
  using assms by (cases user) (simp_all add: deletePoll_def split_beta Let_def)

lemma createPoll_identity_error:
  assumes "ok (fst (rateLimitCheck req ''createPoll'' (rateLimitStore s)))"
    and "createPollSchema (sanitizedInput formData) = Inr d"
    and "auth_getUser supabase = (user, Some userError)"
  shows "fst (createPoll supabase req formData s) =
           \<lparr>ok = False, error = Some (getFriendlyErrorMessage userError)\<rparr>"
  using assms by (cases user) (simp_all add: createPoll_def split_beta Let_def)

lemma updatePoll_identity_error:
  assumes "ok (fst (rateLimitCheck req ''updatePoll'' (rateLimitStore s)))"
    and "updatePollSchema (sanitizedInput formData) = Inr d"
    and "auth_getUser supabase = (user, Some userError)"
  shows "fst (updatePoll supabase req pollId formData s) =
           \<lparr>ok = False, error = Some (getFriendlyErrorMessage userError)\<rparr>"
  using assms by (cases user) (simp_all add: updatePoll_def split_beta Let_def)

text \<open>
  Claim C7 fails on the code. A caller without a session is answered by the
  authentication service with no user and the error \<^verbatim>\<open>Auth session missing!\<close>. For
  that caller \<^verbatim>\<open>deletePoll\<close>, past the rate limiter, returns the generic
  \<^verbatim>\<open>An unexpected error occurred. Please try again.\<close> and not an
  authentication-required error, while \<^verbatim>\<open>getPollById\<close> returns
  \<^verbatim>\<open>Authentication required\<close> for the same caller.
\<close>

theorem deletePoll_session_missing:
  "fst (auth_getUser (referenceStore
          (None, Some \<lparr>code = None, message = Some ''Auth session missing!''\<rparr>) ''p9'')) = None \<and>
   fst (deletePoll
          (referenceStore
             (None, Some \<lparr>code = None, message = Some ''Auth session missing!''\<rparr>) ''p9'')
          \<lparr>headersList = (\<lambda>_. None), dateNow = 1000\<rparr> ''p1''
          \<lparr>rateLimitStore = Map.empty, database = \<lparr>polls = [], votes = []\<rparr>,
           revalidated = []\<rparr>) =
     \<lparr>ok = False, error = Some (Str ''An unexpected error occurred. Please try again.'')\<rparr> \<and>
   getPollById
     (referenceStore
        (None, Some \<lparr>code = None, message = Some ''Auth session missing!''\<rparr>) ''p9'')
     ''p1'' \<lparr>polls = [], votes = []\<rparr> =
     (None, Some (Str ''Authentication required''))"
proof -
  let ?e = "\<lparr>code = None, message = Some ''Auth session missing!''\<rparr>"
  let ?sb = "referenceStore (None, Some ?e) ''p9''"
  let ?req = "\<lparr>headersList = (\<lambda>_. None), dateNow = 1000\<rparr>"
  let ?s = "\<lparr>rateLimitStore = Map.empty, database = \<lparr>polls = [], votes = []\<rparr>,
            revalidated = []\<rparr>"
  have f: "getFriendlyErrorMessage ?e = Str ''An unexpected error occurred. Please try again.''"
    by code_simp
  have rl: "ok (fst (rateLimitCheck ?req ''deletePoll'' (rateLimitStore ?s)))"
    by (simp add: rateLimitCheck_def checkRateLimit_def)
  have a: "auth_getUser ?sb = (None, Some ?e)"
    by (simp add: referenceStore_def)
  have 1: "fst (auth_getUser ?sb) = None" by (simp add: a)
  have 2: "fst (deletePoll ?sb ?req ''p1'' ?s) =
      \<lparr>ok = False, error = Some (Str ''An unexpected error occurred. Please try again.'')\<rparr>"
    using deletePoll_identity_error [OF rl a] f by simp
  have 3: "getPollById ?sb ''p1'' \<lparr>polls = [], votes = []\<rparr> =
      (None, Some (Str ''Authentication required''))"
    by (simp add: getPollById_def a)
  from 1 2 3 show ?thesis by blast
qed

lemma store_select_owned_none:
  assumes "\<forall>p \<in> set (polls db). polls_id p = id' \<longrightarrow> polls_user_id p \<noteq> u"
  shows "store_polls_select_owned id' u db =
     (None, Some \<lparr>code = Some ''PGRST116'',
                  message = Some ''JSON object requested, multiple (or no) rows returned''\<rparr>)"
proof -
  have "filter (owned id' u) (polls db) = []"
    using assms by (auto simp: filter_empty_conv owned_def)
  then show ?thesis by (simp add: store_polls_select_owned_def single_def)
qed

lemma friendly_PGRST116:
  "getFriendlyErrorMessage \<lparr>code = Some ''PGRST116'', message = m\<rparr> =
     Str ''Requested resource not found.''"
  by (simp add: getFriendlyErrorMessage_def property_def DB_ERROR_MESSAGES_def)

text \<open>
  Claim C10. \<^verbatim>\<open>getPollById\<close> with no authenticated identity returns no poll and the
  error \<^verbatim>\<open>Authentication required\<close>, whatever the store. For an authenticated caller
  the query is made with both the poll identifier and the caller's identifier. On the
  reference store a caller who owns no poll of that identifier receives no poll and an
  error (\<^verbatim>\<open>Requested resource not found.\<close> when identity resolution reports no
  error), also when the poll exists; the owner receives the poll.
\<close>

theorem getPollById_owner_scoped:
  "(fst (auth_getUser supabase) = None \<longrightarrow>
      getPollById supabase id' db = (None, Some (Str ''Authentication required''))) \<and>
   (\<forall>u. auth_getUser supabase = (Some u, None) \<longrightarrow>
      getPollById supabase id' db =
        (case polls_select_owned supabase id' u db of
           (data, Some err) \<Rightarrow> (None, Some (getFriendlyErrorMessage err))
         | (data, None) \<Rightarrow> (data, None))) \<and>
   (\<forall>u session uuid.
      fst session = Some u \<and>
      (\<forall>p \<in> set (polls db). polls_id p = id' \<longrightarrow> polls_user_id p \<noteq> u) \<longrightarrow>
      fst (getPollById (referenceStore session uuid) id' db) = None \<and>
      snd (getPollById (referenceStore session uuid) id' db) \<noteq> None \<and>
      (snd session = None \<longrightarrow>
         getPollById (referenceStore session uuid) id' db =
           (None, Some (Str ''Requested resource not found.'')))) \<and>
   (\<forall>u uuid p.
      filter (owned id' u) (polls db) = [p] \<longrightarrow>
      getPollById (referenceStore (Some u, None) uuid) id' db = (Some p, None))"
proof (intro conjI allI impI)
  assume "fst (auth_getUser supabase) = None"
  then show "getPollById supabase id' db = (None, Some (Str ''Authentication required''))"
    by (cases "auth_getUser supabase") (auto simp: getPollById_def split: option.splits)
next
  fix u
  assume "auth_getUser supabase = (Some u, None)"
  then show "getPollById supabase id' db =
        (case polls_select_owned supabase id' u db of
           (data, Some err) \<Rightarrow> (None, Some (getFriendlyErrorMessage err))
         | (data, None) \<Rightarrow> (data, None))"
    by (simp add: getPollById_def)
next
  fix u and session :: "string option \<times> BackendError option" and uuid
  assume a: "fst session = Some u \<and>
      (\<forall>p \<in> set (polls db). polls_id p = id' \<longrightarrow> polls_user_id p \<noteq> u)"
  then have sel: "polls_select_owned (referenceStore session uuid) id' u db =
     (None, Some \<lparr>code = Some ''PGRST116'',
                  message = Some ''JSON object requested, multiple (or no) rows returned''\<rparr>)"
    using store_select_owned_none [of db id' u] by (simp add: referenceStore_def)
  obtain e where s: "session = (Some u, e)" using a by (cases session) auto
  show "fst (getPollById (referenceStore session uuid) id' db) = None"
    using sel s by (cases e) (simp_all add: getPollById_def referenceStore_def)
  show "snd (getPollById (referenceStore session uuid) id' db) \<noteq> None"
    using sel s by (cases e) (simp_all add: getPollById_def referenceStore_def)
  show "getPollById (referenceStore session uuid) id' db =
           (None, Some (Str ''Requested resource not found.''))" if "snd session = None"
    using sel s that by (simp add: getPollById_def referenceStore_def friendly_PGRST116)
next
  fix u uuid p
  assume "filter (owned id' u) (polls db) = [p]"
  then show "getPollById (referenceStore (Some u, None) uuid) id' db = (Some p, None)"
    by (simp add: getPollById_def referenceStore_def store_polls_select_owned_def single_def)
qed

theorem getPollById_owner_scoped_witness:
  "getPollById (referenceStore (None, None) ''p9'') ''p1''
     \<lparr>polls = [\<lparr>polls_id = ''p1'', polls_user_id = ''alice'',
                 polls_question = ''What is your favorite color?'',
                 polls_options = [''Red'', ''Blue''], polls_is_active = True\<rparr>],
      votes = []\<rparr> = (None, Some (Str ''Authentication required'')) \<and>
   getPollById (referenceStore (Some ''bob'', None) ''p9'') ''p1''
     \<lparr>polls = [\<lparr>polls_id = ''p1'', polls_user_id = ''alice'',
                 polls_question = ''What is your favorite color?'',
                 polls_options = [''Red'', ''Blue''], polls_is_active = True\<rparr>],
      votes = []\<rparr> = (None, Some (Str ''Requested resource not found.'')) \<and>
   getPollById (referenceStore (Some ''alice'', None) ''p9'') ''p1''
     \<lparr>polls = [\<lparr>polls_id = ''p1'', polls_user_id = ''alice'',
                 polls_question = ''What is your favorite color?'',
                 polls_options = [''Red'', ''Blue''], polls_is_active = True\<rparr>],
      votes = []\<rparr> =
     (Some \<lparr>polls_id = ''p1'', polls_user_id = ''alice'',
            polls_question = ''What is your favorite color?'',
            polls_options = [''Red'', ''Blue''], polls_is_active = True\<rparr>, None)"
proof -
  let ?p = "\<lparr>polls_id = ''p1'', polls_user_id = ''alice'',
             polls_question = ''What is your favorite color?'',
             polls_options = [''Red'', ''Blue''], polls_is_active = True\<rparr>"
  let ?db = "\<lparr>polls = [?p], votes = []\<rparr>"
  have 1: "getPollById (referenceStore (None, None) ''p9'') ''p1'' ?db =
      (None, Some (Str ''Authentication required''))"
    using getPollById_owner_scoped [where supabase = "referenceStore (None, None) ''p9''"
        and id' = "''p1''" and db = ?db, THEN conjunct1]
    by (simp add: referenceStore_def)
  have h: "fst (Some ''bob'', None :: BackendError option) = Some ''bob'' \<and>
      (\<forall>p \<in> set (polls ?db). polls_id p = ''p1'' \<longrightarrow> polls_user_id p \<noteq> ''bob'')"
    by simp
  have 2: "getPollById (referenceStore (Some ''bob'', None) ''p9'') ''p1'' ?db =
      (None, Some (Str ''Requested resource not found.''))"
    using getPollById_owner_scoped [where id' = "''p1''" and db = ?db,
        THEN conjunct2, THEN conjunct2, THEN conjunct1, rule_format, OF h,
        where uuid = "''p9''"]
    by simp
  have o: "filter (owned ''p1'' ''alice'') (polls ?db) = [?p]"
    by (simp add: owned_def)
  have 3: "getPollById (referenceStore (Some ''alice'', None) ''p9'') ''p1'' ?db = (Some ?p, None)"
    using getPollById_owner_scoped [where id' = "''p1''" and db = ?db,
        THEN conjunct2, THEN conjunct2, THEN conjunct2, rule_format, OF o] .
  from 1 2 3 show ?thesis by blast
qed

end
